theory Spec2Isabelle
  imports Complex_Main "HOL-Library.Sublist"
begin

section \<open>Numbers, vectors and matrices\<close>

text \<open>
  The program computes with Python floats and 3-element numpy arrays. Coordinates are
  modelled as real numbers (the arithmetic of the source read exactly), a 3-vector as a
  triple and a 3x3 matrix as the triple of its rows.
\<close>

type_synonym vec = "real \<times> real \<times> real"
type_synonym mat = "vec \<times> vec \<times> vec"

definition vadd :: "vec \<Rightarrow> vec \<Rightarrow> vec" where
  "vadd u v = (case u of (a, b, c) \<Rightarrow> case v of (x, y, z) \<Rightarrow> (a + x, b + y, c + z))"

text \<open>\<^verbatim>\<open>numpy.dot(v, M)\<close> for a vector and a matrix: the row vector times the matrix.\<close>

definition dot :: "vec \<Rightarrow> mat \<Rightarrow> vec" where
  "dot v M =
     (case v of (x, y, z) \<Rightarrow>
      case M of ((a11, a12, a13), (a21, a22, a23), (a31, a32, a33)) \<Rightarrow>
        (x * a11 + y * a21 + z * a31,
         x * a12 + y * a22 + z * a32,
         x * a13 + y * a23 + z * a33))"

text \<open>\<^verbatim>\<open>(u < v).all()\<close> and \<^verbatim>\<open>(u <= v).all()\<close> on numpy arrays.\<close>

definition all_lt :: "vec \<Rightarrow> vec \<Rightarrow> bool" where
  "all_lt u v = (case u of (a, b, c) \<Rightarrow> case v of (x, y, z) \<Rightarrow> a < x \<and> b < y \<and> c < z)"

definition all_le :: "vec \<Rightarrow> vec \<Rightarrow> bool" where
  "all_le u v = (case u of (a, b, c) \<Rightarrow> case v of (x, y, z) \<Rightarrow> a \<le> x \<and> b \<le> y \<and> c \<le> z)"

section \<open>The data model\<close>

text \<open>
  \<^verbatim>\<open>latt.AtomInNode\<close>, \<^verbatim>\<open>latt.Node\<close>, \<^verbatim>\<open>latt.UnitCell\<close>,
  \<^verbatim>\<open>graingen.CrystalLattice\<close> and \<^verbatim>\<open>mdprim.Atom\<close>, with the attributes
  \<^verbatim>\<open>monocryst.py\<close> reads: \<^verbatim>\<open>atom.name\<close>, \<^verbatim>\<open>atom.pos\<close>, \<^verbatim>\<open>node.atoms_in_node\<close>,
  \<^verbatim>\<open>unit_cell.M_1\<close>, \<^verbatim>\<open>lattice.unit_cell\<close>. A node's own position and a lattice's node
  list are what the constructors \<^verbatim>\<open>latt.Node(pos, atoms)\<close> and
  \<^verbatim>\<open>CrystalLattice(cell, nodes)\<close> are given.
\<close>

datatype atom_in_node = AtomInNode (ain_name: string) (ain_pos: vec)

datatype node = Node (pos_in_cell: vec) (atoms_in_node: "atom_in_node list")

record unit_cell =
  cell_a :: real
  cell_b :: real
  cell_c :: real
  M_1 :: mat

datatype crystal_lattice = CrystalLattice (unit_cell: unit_cell) (nodes: "node list")

datatype atom = Atom (atom_name: string) (atom_pos: vec)

text \<open>The exceptions the modelled code can raise.\<close>

datatype error =
    AssertionError
  | ValueError string
  | SystemExit string
  | ZeroDivisionError
  | IndexError
  | ExternalError string

text \<open>
  The values the caller may pass for \<^verbatim>\<open>upper\<close>: Python checks nothing about the type of
  an argument, so the parameter ranges over Python values.
\<close>

datatype pyval = PyNone | PyBool bool | PyInt int | PyFloat real | PyStr string

text \<open>
  Python's \<^verbatim>\<open>==\<close> on these values: \<^verbatim>\<open>bool\<close> is a subclass of \<^verbatim>\<open>int\<close>, so
  \<^verbatim>\<open>True == 1\<close>, \<^verbatim>\<open>False == 0\<close>, and numbers compare by value; \<^verbatim>\<open>None\<close> and
  strings equal only themselves.
\<close>

fun py_num :: "pyval \<Rightarrow> real option" where
  "py_num (PyBool b) = Some (if b then 1 else 0)"
| "py_num (PyInt i) = Some (of_int i)"
| "py_num (PyFloat x) = Some x"
| "py_num PyNone = None"
| "py_num (PyStr s) = None"

definition py_eq :: "pyval \<Rightarrow> pyval \<Rightarrow> bool" where
  "py_eq x y =
     (case (py_num x, py_num y) of
        (Some a, Some b) \<Rightarrow> a = b
      | _ \<Rightarrow> x = y)"

text \<open>\<^verbatim>\<open>x is y\<close> for the singletons \<^verbatim>\<open>True\<close>, \<^verbatim>\<open>False\<close> and \<^verbatim>\<open>None\<close>: identity.\<close>

definition py_is :: "pyval \<Rightarrow> pyval \<Rightarrow> bool" where
  "py_is x y = (x = y)"

text \<open>\<^verbatim>\<open>x in (a, b, c)\<close>: some element is identical or equal to \<^verbatim>\<open>x\<close>.\<close>

definition py_in :: "pyval \<Rightarrow> pyval list \<Rightarrow> bool" where
  "py_in x ys = list_ex (\<lambda>y. py_is x y \<or> py_eq x y) ys"

section \<open>The collaborators outside \<^verbatim>\<open>monocryst.py\<close>\<close>

text \<open>
  \<^verbatim>\<open>monocryst.py\<close> calls into \<^verbatim>\<open>graingen\<close>, \<^verbatim>\<open>latt\<close>, \<^verbatim>\<open>rotmat\<close>, \<^verbatim>\<open>utils\<close> and the
  optional \<^verbatim>\<open>gemmi\<close> library. What those calls return is a parameter of the model:

  \<^item> \<open>gemmi_read\<close>: \<open>None\<close> when \<^verbatim>\<open>import gemmi\<close> fails; otherwise
    \<^verbatim>\<open>gemmi.read_atomic_structure\<close>, giving the cell that \<^verbatim>\<open>latt.UnitCell\<close> builds from
    the six cell parameters of the file and the sites (symbol and fractional position)
    of \<^verbatim>\<open>get_all_unit_cell_sites()\<close>, or raising;
  \<^item> \<open>latt_generate_polytype\<close>, \<open>graingen_generate_polytype\<close>: the two
    \<^verbatim>\<open>generate_polytype(a, h, polytype)\<close>, giving a cell and node positions, or raising;
  \<^item> \<open>all_nodes\<close>: \<^verbatim>\<open>compute_scope()\<close> followed by \<^verbatim>\<open>get_all_nodes()\<close> of
    \<^verbatim>\<open>graingen.FreshModel\<close>, from the model's lattice and the vertices of
    \<^verbatim>\<open>get_vertices()\<close>: the pairs (node, fractional position of a replica of it);
  \<^item> \<open>rotate\<close>: \<^verbatim>\<open>UnitCell.rotate(rot_mat)\<close>, as the cell it leaves behind;
  \<^item> \<open>get_orthorhombic_supercell\<close>, \<open>round_to_multiplicity\<close>, \<open>get_command_line\<close>:
    the functions of those names.
\<close>

record collab =
  gemmi_read :: "(string \<Rightarrow> error + unit_cell \<times> (string \<times> vec) list) option"
  latt_generate_polytype :: "real \<Rightarrow> real \<Rightarrow> string \<Rightarrow> error + unit_cell \<times> vec list"
  graingen_generate_polytype :: "real \<Rightarrow> real \<Rightarrow> string \<Rightarrow> error + unit_cell \<times> vec list"
  all_nodes :: "crystal_lattice \<Rightarrow> vec list \<Rightarrow> (node \<times> vec) list"
  rotate :: "mat \<Rightarrow> unit_cell \<Rightarrow> unit_cell"
  get_orthorhombic_supercell :: "unit_cell \<Rightarrow> vec"
  round_to_multiplicity :: "real \<Rightarrow> real \<Rightarrow> real"
  get_command_line :: string

section \<open>The store and the model object\<close>

text \<open>
  Lattices are objects that the caller, the catalog and a model may share, and
  \<^verbatim>\<open>UnitCell.rotate\<close> changes one in place. The store holds the lattice objects; an
  address is an index into it. A model keeps the address of its lattice, and its
  \<^verbatim>\<open>self.unit_cell\<close> is the unit cell of that lattice (the same object, as the spec's
  "consumed, may be mutated by rotation" says of the builder's lattice).
\<close>

type_synonym addr = nat
type_synonym store = "crystal_lattice list"

record model =
  lattice :: addr
  dim :: vec
  rot_mat :: "mat option"
  title :: string
  pbc :: mat
  atoms :: "atom list"
  min_max :: "(real \<times> real) list"

text \<open>\<^verbatim>\<open>copy.deepcopy(lattice)\<close>: a new object with the same contents.\<close>

definition deepcopy :: "store \<Rightarrow> addr \<Rightarrow> addr \<times> store" where
  "deepcopy s l = (length s, s @ [s ! l])"

text \<open>
  \<^verbatim>\<open>RotatedMonocrystal.__init__\<close> through \<^verbatim>\<open>OrthorhombicPbcModel.__init__\<close>:
  \<^verbatim>\<open>pbc = identity(3) * dimensions\<close>; the base class keeps the lattice, the periodic box
  and the title, and starts with no atoms.
\<close>

definition RotatedMonocrystal :: "addr \<Rightarrow> vec \<Rightarrow> mat option \<Rightarrow> string option \<Rightarrow> model" where
  "RotatedMonocrystal lat d rm ttl =
     \<lparr>lattice = lat, dim = d, rot_mat = rm,
      title = (case ttl of None \<Rightarrow> ''generated by gosam.monocryst'' | Some t \<Rightarrow> t),
      pbc = (case d of (x, y, z) \<Rightarrow> ((1 * x, 0 * y, 0 * z), (0 * x, 1 * y, 0 * z), (0 * x, 0 * y, 1 * z))),
      atoms = [], min_max = []\<rparr>"

section \<open>The Box Filler\<close>

text \<open>
  \<^verbatim>\<open>OrthorhombicPbcModel.get_vertices\<close>: the eight corners, from the three
  (minimum, maximum) pairs of \<^verbatim>\<open>_min_max\<close>. It is only called once \<^verbatim>\<open>_min_max\<close> holds
  three pairs.
\<close>

fun get_vertices :: "(real \<times> real) list \<Rightarrow> vec list" where
  "get_vertices (mx # my # mz # rest) =
     concat (map (\<lambda>x. concat (map (\<lambda>y. map (\<lambda>z. (x, y, z)) [fst mz, snd mz]) [fst my, snd my]))
       [fst mx, snd mx])"
| "get_vertices _ = []"

text \<open>\<^verbatim>\<open>list(zip(vmin, vmax))\<close>.\<close>

definition zip_bounds :: "vec \<Rightarrow> vec \<Rightarrow> (real \<times> real) list" where
  "zip_bounds vmin vmax =
     (case vmin of (a, b, c) \<Rightarrow> case vmax of (x, y, z) \<Rightarrow> [(a, x), (b, y), (c, z)])"

text \<open>
  The body of the inner loop of \<^verbatim>\<open>_do_gen_atoms\<close>, for one atom of one node replica:
  \<^verbatim>\<open>xyz = dot(abs_pos + atom.pos, self.unit_cell.M_1)\<close>, then the test and the append.
\<close>

definition place_atom :: "unit_cell \<Rightarrow> vec \<Rightarrow> vec \<Rightarrow> vec \<Rightarrow> atom_in_node \<Rightarrow> atom list \<Rightarrow> atom list" where
  "place_atom uc vmin vmax abs_pos a acc =
     (let xyz = dot (vadd abs_pos (ain_pos a)) (M_1 uc)
      in if all_lt vmin xyz \<and> all_le xyz vmax then acc @ [Atom (ain_name a) xyz] else acc)"

text \<open>The inner loop \<^verbatim>\<open>for atom in node.atoms_in_node\<close>.\<close>

fun atoms_loop :: "unit_cell \<Rightarrow> vec \<Rightarrow> vec \<Rightarrow> vec \<Rightarrow> atom_in_node list \<Rightarrow> atom list \<Rightarrow> atom list" where
  "atoms_loop uc vmin vmax abs_pos [] acc = acc"
| "atoms_loop uc vmin vmax abs_pos (a # as) acc =
     atoms_loop uc vmin vmax abs_pos as (place_atom uc vmin vmax abs_pos a acc)"

text \<open>The outer loop \<^verbatim>\<open>for node, abs_pos in self.get_all_nodes()\<close>.\<close>

fun nodes_loop :: "unit_cell \<Rightarrow> vec \<Rightarrow> vec \<Rightarrow> (node \<times> vec) list \<Rightarrow> atom list \<Rightarrow> atom list" where
  "nodes_loop uc vmin vmax [] acc = acc"
| "nodes_loop uc vmin vmax ((n, abs_pos) # rest) acc =
     nodes_loop uc vmin vmax rest (atoms_loop uc vmin vmax abs_pos (atoms_in_node n) acc)"

text \<open>
  \<^verbatim>\<open>OrthorhombicPbcModel._do_gen_atoms\<close>. It stores \<^verbatim>\<open>_min_max\<close>, has the scope
  computed for the vertices, and appends to \<^verbatim>\<open>self.atoms\<close>. The printed scope summary
  is left out. The store is only read.
\<close>

definition do_gen_atoms :: "collab \<Rightarrow> store \<Rightarrow> model \<Rightarrow> vec \<Rightarrow> vec \<Rightarrow> model" where
  "do_gen_atoms E s m vmin vmax =
     (let m1 = m\<lparr>min_max := zip_bounds vmin vmax\<rparr>;
          lat = s ! lattice m1;
          cands = all_nodes E lat (get_vertices (min_max m1))
      in m1\<lparr>atoms := nodes_loop (unit_cell lat) vmin vmax cands (atoms m1)\<rparr>)"

section \<open>The Oriented Monocrystal Builder\<close>

definition eps :: real where
  "eps = 0.001"

definition halve :: "vec \<Rightarrow> vec" where
  "halve v = (case v of (x, y, z) \<Rightarrow> (x / 2, y / 2, z / 2))"

definition vneg :: "vec \<Rightarrow> vec" where
  "vneg v = (case v of (x, y, z) \<Rightarrow> (- x, - y, - z))"

definition vshift :: "vec \<Rightarrow> real \<Rightarrow> vec" where
  "vshift v e = (case v of (x, y, z) \<Rightarrow> (x + e, y + e, z + e))"

text \<open>\<^verbatim>\<open>v[2] = x\<close> and reading \<^verbatim>\<open>v[2]\<close>.\<close>

definition set2 :: "vec \<Rightarrow> real \<Rightarrow> vec" where
  "set2 v x = (case v of (a, b, c) \<Rightarrow> (a, b, x))"

definition get2 :: "vec \<Rightarrow> real" where
  "get2 v = (case v of (a, b, c) \<Rightarrow> c)"

text \<open>
  \<^verbatim>\<open>RotatedMonocrystal.get_box_to_fill(self, dim, upper, z_margin)\<close>. The bounds are
  computed from \<^verbatim>\<open>self.dim\<close>; the argument \<^verbatim>\<open>dim\<close> is not read. \<^verbatim>\<open>vmin\<close> and \<^verbatim>\<open>vmax\<close>
  are new arrays, so the assignments to their third component change nothing else.
  \<^verbatim>\<open>if z_margin:\<close> is true of a nonzero number.
\<close>

definition get_box_to_fill :: "model \<Rightarrow> vec \<Rightarrow> pyval \<Rightarrow> real \<Rightarrow> error + vec \<times> vec" where
  "get_box_to_fill m d upper z_margin =
     (let vmin = vshift (vneg (halve (dim m))) eps;
          vmax = vshift (halve (dim m)) eps
      in if \<not> py_in upper [PyBool True, PyBool False, PyNone] then Inl AssertionError
         else if py_is upper (PyBool True) then
           (let vmin1 = set2 vmin eps;
                vmax1 = (if z_margin \<noteq> 0 then set2 vmax (get2 vmax - z_margin / 2) else vmax)
            in Inr (vmin1, vmax1))
         else if py_is upper (PyBool False) then
           (let vmax1 = set2 vmax eps;
                vmin1 = (if z_margin \<noteq> 0 then set2 vmin (get2 vmin + z_margin / 2) else vmin)
            in Inr (vmin1, vmax1))
         else Inr (vmin, vmax))"

text \<open>
  \<^verbatim>\<open>s[l].unit_cell.rotate(rot_mat)\<close>: the lattice at \<open>l\<close> gets the rotated cell.
\<close>

definition rotate_lattice :: "collab \<Rightarrow> mat \<Rightarrow> store \<Rightarrow> addr \<Rightarrow> store" where
  "rotate_lattice E R s l =
     s[l := CrystalLattice (rotate E R (unit_cell (s ! l))) (nodes (s ! l))]"

text \<open>
  \<^verbatim>\<open>RotatedMonocrystal.generate_atoms(self, upper=None, z_margin=0.)\<close>: the value
  returned or the exception raised, the model and the store it leaves. The printed atom
  count is left out.
\<close>

definition generate_atoms :: "collab \<Rightarrow> pyval \<Rightarrow> real \<Rightarrow> model \<times> store \<Rightarrow> (error + atom list) \<times> model \<times> store" where
  "generate_atoms E upper z_margin ms =
     (case ms of (m, s) \<Rightarrow>
      let m1 = m\<lparr>atoms := []\<rparr> in
      (case get_box_to_fill m1 (dim m1) upper z_margin of
         Inl e \<Rightarrow> (Inl e, m1, s)
       | Inr (vmin, vmax) \<Rightarrow>
           (let s1 = (case rot_mat m1 of None \<Rightarrow> s | Some R \<Rightarrow> rotate_lattice E R s (lattice m1));
                m2 = do_gen_atoms E s1 m1 vmin vmax
            in (Inr (atoms m2), m2, s1))))"

section \<open>Candidate atoms and the inclusion test\<close>


text \<open>
  The candidate atoms of a run of \<^verbatim>\<open>_do_gen_atoms\<close>, in the order the two loops visit
  them: for every node replica of the scope and every atom of the node, the species and
  the absolute position \<^verbatim>\<open>dot(abs_pos + atom.pos, M_1)\<close>.
\<close>

definition candidates :: "collab \<Rightarrow> store \<Rightarrow> model \<Rightarrow> vec \<Rightarrow> vec \<Rightarrow> (string \<times> vec) list" where
  "candidates E s m vmin vmax =
     concat (map (\<lambda>(n, abs_pos).
         map (\<lambda>a. (ain_name a, dot (vadd abs_pos (ain_pos a)) (M_1 (unit_cell (s ! lattice m)))))
           (atoms_in_node n))
       (all_nodes E (s ! lattice m) (get_vertices (zip_bounds vmin vmax))))"

definition inside :: "vec \<Rightarrow> vec \<Rightarrow> vec \<Rightarrow> bool" where
  "inside vmin vmax xyz = (all_lt vmin xyz \<and> all_le xyz vmax)"

section \<open>The Lattice Catalog\<close>

text \<open>
  Modelled from the spec: the node tables \<^verbatim>\<open>graingen.simple_nodes\<close>,
  \<^verbatim>\<open>graingen.fcc_nodes\<close> and \<^verbatim>\<open>graingen.bcc_nodes\<close> (\<^verbatim>\<open>graingen.py\<close> is not among the
  sources), which the spec calls the canonical node-position tables of the simple,
  face-centred and body-centred cells: the fractional positions of the lattice points
  of those cells.
\<close>

definition simple_nodes :: "vec list" where
  "simple_nodes = [(0, 0, 0)]"

definition fcc_nodes :: "vec list" where
  "fcc_nodes = [(0, 0, 0), (0.5, 0.5, 0), (0.5, 0, 0.5), (0, 0.5, 0.5)]"

definition bcc_nodes :: "vec list" where
  "bcc_nodes = [(0, 0, 0), (0.5, 0.5, 0.5)]"

text \<open>
  Modelled from the spec: the unit cells \<^verbatim>\<open>latt.OrthorhombicUnitCell(a, b, c)\<close>,
  \<^verbatim>\<open>latt.CubicUnitCell(a)\<close> and \<^verbatim>\<open>latt.TetragonalUnitCell(a, c)\<close> (\<^verbatim>\<open>latt.py\<close> is not
  among the sources): the lengths, and the matrix \<^verbatim>\<open>M_1\<close> that maps fractional to
  absolute coordinates, which for edges along the axes is the diagonal matrix of the
  lengths.
\<close>

definition OrthorhombicUnitCell :: "real \<Rightarrow> real \<Rightarrow> real \<Rightarrow> unit_cell" where
  "OrthorhombicUnitCell a b c =
     \<lparr>cell_a = a, cell_b = b, cell_c = c, M_1 = ((a, 0, 0), (0, b, 0), (0, 0, c))\<rparr>"

definition CubicUnitCell :: "real \<Rightarrow> unit_cell" where
  "CubicUnitCell a = OrthorhombicUnitCell a a a"

definition TetragonalUnitCell :: "real \<Rightarrow> real \<Rightarrow> unit_cell" where
  "TetragonalUnitCell a c = OrthorhombicUnitCell a a c"

definition get_diamond_node_pos :: "vec list" where
  "get_diamond_node_pos =
     concat (map (\<lambda>i. case i of (x, y, z) \<Rightarrow> [i, (x + 0.25, y + 0.25, z + 0.25)]) fcc_nodes)"

text \<open>
  \<^verbatim>\<open>make_lattice\<close>: every node position gets the same atoms. The atoms are given as
  tuples \<^verbatim>\<open>(symbol, x, y, z)\<close>, which \<^verbatim>\<open>latt.Node\<close> keeps as atoms with a name and a
  position.
\<close>

definition make_lattice :: "unit_cell \<Rightarrow> vec list \<Rightarrow> atom_in_node list \<Rightarrow> crystal_lattice" where
  "make_lattice cell node_pos node_atoms =
     CrystalLattice cell (map (\<lambda>i. Node i node_atoms) node_pos)"

definition make_simple_cubic_lattice :: "string \<Rightarrow> real \<Rightarrow> crystal_lattice" where
  "make_simple_cubic_lattice symbol a =
     CrystalLattice (CubicUnitCell a) [Node (0, 0, 0) [AtomInNode symbol (0, 0, 0)]]"

definition make_fcc_lattice :: "string \<Rightarrow> real \<Rightarrow> crystal_lattice" where
  "make_fcc_lattice symbol a =
     make_lattice (CubicUnitCell a) fcc_nodes [AtomInNode symbol (0, 0, 0)]"

definition make_bcc_lattice :: "string \<Rightarrow> real \<Rightarrow> crystal_lattice" where
  "make_bcc_lattice symbol a =
     make_lattice (CubicUnitCell a) bcc_nodes [AtomInNode symbol (0, 0, 0)]"

text \<open>The factories of two or four species start with \<^verbatim>\<open>assert len(symbols) == n\<close>.\<close>

definition make_zincblende_lattice :: "string list \<Rightarrow> real \<Rightarrow> error + crystal_lattice" where
  "make_zincblende_lattice symbols a =
     (case symbols of
        [s0, s1] \<Rightarrow> Inr (make_lattice (CubicUnitCell a) fcc_nodes
          [AtomInNode s0 (0, 0, 0), AtomInNode s1 (0.25, 0.25, 0.25)])
      | _ \<Rightarrow> Inl AssertionError)"

definition make_zincblende2_lattice :: "string list \<Rightarrow> real \<Rightarrow> error + crystal_lattice" where
  "make_zincblende2_lattice symbols a =
     (case symbols of
        [s0, s1] \<Rightarrow> Inr (make_lattice (CubicUnitCell a) fcc_nodes
          [AtomInNode s0 (0, 0, 0), AtomInNode s1 (0.25, 0.75, 0.75)])
      | _ \<Rightarrow> Inl AssertionError)"

definition make_kesterite_structure :: "string list \<Rightarrow> real \<Rightarrow> real \<Rightarrow> real \<Rightarrow> error + crystal_lattice" where
  "make_kesterite_structure symbols a b c =
     (case symbols of
        [s0, s1, s2, s3] \<Rightarrow> Inr (make_lattice (OrthorhombicUnitCell a b c) bcc_nodes
          [AtomInNode s0 (0, 0, 0),
           AtomInNode s1 (0.5, 0.5, 0),
           AtomInNode s0 (0, 0.5, 0.25),
           AtomInNode s2 (0.5, 0, 0.25),
           AtomInNode s1 (0, 0, 0.5),
           AtomInNode s0 (0.5, 0.5, 0.5),
           AtomInNode s2 (0, 0.5, 0.75),
           AtomInNode s0 (0.5, 0, 0.75),
           AtomInNode s3 (0.25, 0.25, 0.125),
           AtomInNode s3 (0.75, 0.75, 0.125),
           AtomInNode s3 (0.25, 0.75, 0.375),
           AtomInNode s3 (0.75, 0.25, 0.375),
           AtomInNode s3 (0.25, 0.25, 0.625),
           AtomInNode s3 (0.75, 0.75, 0.625),
           AtomInNode s3 (0.25, 0.75, 0.875),
           AtomInNode s3 (0.75, 0.25, 0.875)])
      | _ \<Rightarrow> Inl AssertionError)"

definition make_stannite_structure :: "string list \<Rightarrow> real \<Rightarrow> real \<Rightarrow> real \<Rightarrow> error + crystal_lattice" where
  "make_stannite_structure symbols a b c =
     (case symbols of
        [s0, s1, s2, s3] \<Rightarrow> Inr (make_lattice (OrthorhombicUnitCell a b c) bcc_nodes
          [AtomInNode s0 (0, 0, 0),
           AtomInNode s0 (0.5, 0.5, 0),
           AtomInNode s1 (0, 0.5, 0.25),
           AtomInNode s2 (0.5, 0, 0.25),
           AtomInNode s0 (0, 0, 0.5),
           AtomInNode s0 (0.5, 0.5, 0.5),
           AtomInNode s2 (0, 0.5, 0.75),
           AtomInNode s1 (0.5, 0, 0.75),
           AtomInNode s3 (0.25, 0.25, 0.125),
           AtomInNode s3 (0.75, 0.75, 0.125),
           AtomInNode s3 (0.25, 0.75, 0.375),
           AtomInNode s3 (0.75, 0.25, 0.375),
           AtomInNode s3 (0.25, 0.25, 0.625),
           AtomInNode s3 (0.75, 0.75, 0.625),
           AtomInNode s3 (0.25, 0.75, 0.875),
           AtomInNode s3 (0.75, 0.25, 0.875)])
      | _ \<Rightarrow> Inl AssertionError)"

text \<open>
  \<^verbatim>\<open>make_sic_polytype_lattice\<close>: the assertion, then \<^verbatim>\<open>latt.generate_polytype\<close>, then
  \<^verbatim>\<open>0.75 / len(polytype)\<close>, which raises for the empty string.
\<close>

definition make_sic_polytype_lattice :: "collab \<Rightarrow> string list \<Rightarrow> real \<Rightarrow> real \<Rightarrow> string \<Rightarrow> error + crystal_lattice" where
  "make_sic_polytype_lattice E symbols a h polytype =
     (case symbols of
        [s0, s1] \<Rightarrow>
          (case latt_generate_polytype E a h polytype of
             Inl e \<Rightarrow> Inl e
           | Inr (cell, ns) \<Rightarrow>
               if length polytype = 0 then Inl ZeroDivisionError
               else Inr (make_lattice cell ns
                 [AtomInNode s0 (0, 0, 0),
                  AtomInNode s1 (0, 0, 0.75 / real (length polytype))]))
      | _ \<Rightarrow> Inl AssertionError)"

text \<open>
  \<^verbatim>\<open>make_c_hexagonal_lattice\<close> and \<^verbatim>\<open>make_mg_hexagonal_lattice\<close> have the same body:
  \<^verbatim>\<open>graingen.generate_polytype\<close>, then two atoms named \<^verbatim>\<open>symbol[0]\<close>, the first
  character of the string \<^verbatim>\<open>symbol\<close>.
\<close>

definition make_c_hexagonal_lattice :: "collab \<Rightarrow> string \<Rightarrow> real \<Rightarrow> real \<Rightarrow> string \<Rightarrow> error + crystal_lattice" where
  "make_c_hexagonal_lattice E symbol a h polytype =
     (case graingen_generate_polytype E a h polytype of
        Inl e \<Rightarrow> Inl e
      | Inr (cell, ns) \<Rightarrow>
          (case symbol of
             [] \<Rightarrow> Inl IndexError
           | ch # rest \<Rightarrow>
               if length polytype = 0 then Inl ZeroDivisionError
               else Inr (make_lattice cell ns
                 [AtomInNode [ch] (0, 0, 0),
                  AtomInNode [ch] (0, 0, 0.75 / real (length polytype))])))"

definition make_mg_hexagonal_lattice :: "collab \<Rightarrow> string \<Rightarrow> real \<Rightarrow> real \<Rightarrow> string \<Rightarrow> error + crystal_lattice" where
  "make_mg_hexagonal_lattice E symbol a h polytype =
     (case graingen_generate_polytype E a h polytype of
        Inl e \<Rightarrow> Inl e
      | Inr (cell, ns) \<Rightarrow>
          (case symbol of
             [] \<Rightarrow> Inl IndexError
           | ch # rest \<Rightarrow>
               if length polytype = 0 then Inl ZeroDivisionError
               else Inr (make_lattice cell ns
                 [AtomInNode [ch] (0, 0, 0),
                  AtomInNode [ch] (0, 0, 0.75 / real (length polytype))])))"

definition make_diamond_lattice :: "string \<Rightarrow> real \<Rightarrow> crystal_lattice" where
  "make_diamond_lattice symbol a =
     make_lattice (CubicUnitCell a) get_diamond_node_pos [AtomInNode symbol (0, 0, 0)]"

definition make_nbo_lattice :: "string list \<Rightarrow> real \<Rightarrow> error + crystal_lattice" where
  "make_nbo_lattice symbols a =
     (case symbols of
        [s0, s1] \<Rightarrow> Inr (make_lattice (CubicUnitCell a) fcc_nodes
          [AtomInNode s0 (0, 0, 0), AtomInNode s1 (0.5, 0.5, 0.5)])
      | _ \<Rightarrow> Inl AssertionError)"

definition make_crnb_lattice :: "string list \<Rightarrow> real \<Rightarrow> error + crystal_lattice" where
  "make_crnb_lattice symbols a =
     (case symbols of
        [s0, s1] \<Rightarrow> Inr (make_lattice (CubicUnitCell a) fcc_nodes
          [AtomInNode s1 (0.125, 0.125, 0.125),
           AtomInNode s1 (0.875, 0.875, 0.875),
           AtomInNode s0 (0.5, 0.5, 0.5),
           AtomInNode s0 (0.5, 0.25, 0.25),
           AtomInNode s0 (0.25, 0.5, 0.25),
           AtomInNode s0 (0.25, 0.25, 0.5)])
      | _ \<Rightarrow> Inl AssertionError)"

definition make_nacl_lattice :: "string list \<Rightarrow> real \<Rightarrow> error + crystal_lattice" where
  "make_nacl_lattice symbols a =
     (case symbols of
        [s0, s1] \<Rightarrow> Inr (make_lattice (CubicUnitCell a) fcc_nodes
          [AtomInNode s0 (0, 0, 0), AtomInNode s1 (0.5, 0.5, 0.5)])
      | _ \<Rightarrow> Inl AssertionError)"

definition make_niti_lattice :: "string list \<Rightarrow> real \<Rightarrow> error + crystal_lattice" where
  "make_niti_lattice symbols a =
     (case symbols of
        [s0, s1] \<Rightarrow> Inr (make_lattice (CubicUnitCell a) simple_nodes
          [AtomInNode s0 (0, 0, 0), AtomInNode s1 (0.5, 0.5, 0.5)])
      | _ \<Rightarrow> Inl AssertionError)"

definition make_tial_lattice :: "string list \<Rightarrow> real \<Rightarrow> real \<Rightarrow> real \<Rightarrow> error + crystal_lattice" where
  "make_tial_lattice symbols a b c =
     (case symbols of
        [s0, s1] \<Rightarrow> Inr (make_lattice (OrthorhombicUnitCell a b c) bcc_nodes
          [AtomInNode s0 (0, 0, 0), AtomInNode s1 (0.5, 0, 0.5)])
      | _ \<Rightarrow> Inl AssertionError)"

definition make_bct_lattice :: "string \<Rightarrow> real \<Rightarrow> real \<Rightarrow> crystal_lattice" where
  "make_bct_lattice symbol a c =
     make_lattice (TetragonalUnitCell a c) bcc_nodes [AtomInNode symbol (0, 0, 0)]"

text \<open>
  \<^verbatim>\<open>make_lattice_from_cif\<close>: \<^verbatim>\<open>sys.exit\<close> with a message when \<^verbatim>\<open>gemmi\<close> cannot be
  imported; otherwise the cell of the file and one node for every site, holding one atom
  named by the site's symbol (\<^verbatim>\<open>latt.AtomInNode(symbol)\<close>, at the node itself).
\<close>

definition make_lattice_from_cif :: "collab \<Rightarrow> string \<Rightarrow> error + crystal_lattice" where
  \<open>make_lattice_from_cif E filename =
     (case gemmi_read E of
        None \<Rightarrow> Inl (SystemExit ''Gemmi is needed to read cif files. Try "pip install gemmi".'')
      | Some rd \<Rightarrow>
          (case rd filename of
             Inl e \<Rightarrow> Inl e
           | Inr (cell, sites) \<Rightarrow>
               Inr (CrystalLattice cell
                 (map (\<lambda>site. Node (snd site) [AtomInNode (fst site) (0, 0, 0)]) sites))))\<close>

section \<open>Lattice Lookup\<close>

text \<open>
  \<^verbatim>\<open>str.lower()\<close> on a string of bytes: the letters \<^verbatim>\<open>A\<close> to \<^verbatim>\<open>Z\<close> (codes 65 to 90)
  become \<^verbatim>\<open>a\<close> to \<^verbatim>\<open>z\<close>, every other character is kept.
\<close>

definition lower_char :: "char \<Rightarrow> char" where
  "lower_char c =
     (if (65::nat) \<le> of_char c \<and> of_char c \<le> (90::nat) then char_of (of_char c + (32::nat)) else c)"

definition lower :: "string \<Rightarrow> string" where
  "lower s = map lower_char s"

text \<open>\<^verbatim>\<open>s.endswith(t)\<close> and \<^verbatim>\<open>s.startswith(t)\<close>.\<close>

definition endswith :: "string \<Rightarrow> string \<Rightarrow> bool" where
  "endswith s t = suffix t s"

definition startswith :: "string \<Rightarrow> string \<Rightarrow> bool" where
  "startswith s t = prefix t s"

text \<open>
  The chain of comparisons of \<^verbatim>\<open>get_named_lattice\<close>, on the lowercased name, in the
  order of the source.
\<close>

definition lookup :: "collab \<Rightarrow> string \<Rightarrow> error + crystal_lattice" where
  "lookup E name =
     (if name = ''cu'' then Inr (make_fcc_lattice ''Cu'' 3.615)
      else if name = ''al'' then Inr (make_fcc_lattice ''Al'' 4.041)
      else if name = ''ag'' then Inr (make_fcc_lattice ''Ag'' 4.09)
      else if name = ''ni'' then Inr (make_fcc_lattice ''Ni'' 3.52)
      else if name = ''pt'' then Inr (make_fcc_lattice ''Pt'' 3.92)
      else if name = ''fe'' then Inr (make_bcc_lattice ''Fe'' 2.87)
      else if name = ''nb'' then Inr (make_bcc_lattice ''Nb'' 3.308)
      else if name = ''w'' then Inr (make_bcc_lattice ''W'' 3.165)
      else if name = ''po'' then Inr (make_simple_cubic_lattice ''Po'' 3.35)
      else if name = ''nacl'' then make_nacl_lattice [''Na'', ''Cl''] 5.64
      else if name = ''niti'' then make_niti_lattice [''Ni'', ''Ti''] 3.008
      else if name = ''cdte'' then make_zincblende2_lattice [''Cd'', ''Te''] 4.321
      else if name = ''cuznges'' then
        make_kesterite_structure [''Cu'', ''Zn'', ''Ge'', ''S''] 5.358 5.358 10.641
      else if name = ''cuznsnse'' then
        make_stannite_structure [''Cu'', ''Zn'', ''Ge'', ''S''] 5.358 5.358 10.641
      else if name = ''graphine'' then make_c_hexagonal_lattice E ''C'' 3.07 2.52 ''ABABC''
      else if name = ''mg'' then make_mg_hexagonal_lattice E ''Mg'' 3.183 2.06 ''ABAB''
      else if name = ''crnb'' then make_crnb_lattice [''Cr'', ''Nb''] 6.5
      else if name = ''nbo'' then make_nbo_lattice [''Nb'', ''O''] 3.32
      else if name = ''tial'' then make_tial_lattice [''Ti'', ''Al''] 4.0 4.0 4.0
      else if name = ''sic'' then make_zincblende_lattice [''Si'', ''C''] 4.3210368
      else if name = ''si'' then Inr (make_diamond_lattice ''Si'' 5.43)
      else if name = ''diamond'' then Inr (make_diamond_lattice ''C'' 3.567)
      else if startswith name ''sic:'' then
        make_sic_polytype_lattice E [''Si'', ''C''] 3.073 2.52 (drop 4 name)
      else if name = ''sn'' then Inr (make_bct_lattice ''Sn'' 5.83 3.18)
      else Inl (ValueError (''Unknown lattice: '' @ name)))"

text \<open>
  \<^verbatim>\<open>get_named_lattice\<close>: a name ending in \<^verbatim>\<open>.cif\<close> is a file to load; any other name is
  lowercased and looked up.
\<close>

definition get_named_lattice :: "collab \<Rightarrow> string \<Rightarrow> error + crystal_lattice" where
  "get_named_lattice E name =
     (if endswith name ''.cif'' then make_lattice_from_cif E name
      else lookup E (lower name))"

text \<open>The names the chain of comparisons knows, apart from the prefix \<^verbatim>\<open>sic:\<close>.\<close>

definition catalog_names :: "string list" where
  "catalog_names =
     [''cu'', ''al'', ''ag'', ''ni'', ''pt'', ''fe'', ''nb'', ''w'', ''po'', ''nacl'', ''niti'',
      ''cdte'', ''cuznges'', ''cuznsnse'', ''graphine'', ''mg'', ''crnb'', ''nbo'', ''tial'',
      ''sic'', ''si'', ''diamond'', ''sn'']"

definition in_catalog :: "string \<Rightarrow> bool" where
  "in_catalog name = (name \<in> set catalog_names \<or> startswith name ''sic:'')"

section \<open>The Driver\<close>

text \<open>
  \<^verbatim>\<open>mono(lattice, nx, ny, nz)\<close>: the dimensions rounded to the lattice's repeat, a
  builder on a deep copy of the lattice with no rotation, one run of
  \<^verbatim>\<open>generate_atoms()\<close>, and the builder returned. The printed dimensions are left out.
\<close>

definition mono :: "collab \<Rightarrow> store \<Rightarrow> addr \<Rightarrow> real \<Rightarrow> real \<Rightarrow> real \<Rightarrow> (error + model) \<times> store" where
  "mono E s lat nx ny nz =
     (let min_dim = get_orthorhombic_supercell E (unit_cell (s ! lat));
          d = (case min_dim of (mx, my, mz) \<Rightarrow>
                 (round_to_multiplicity E mx (10 * nx),
                  round_to_multiplicity E my (10 * ny),
                  round_to_multiplicity E mz (10 * nz)));
          cp = deepcopy s lat;
          config = RotatedMonocrystal (fst cp) d None (Some (get_command_line E))
      in (case generate_atoms E PyNone 0 (config, snd cp) of
            (Inl e, config1, s1) \<Rightarrow> (Inl e, s1)
          | (Inr as, config1, s1) \<Rightarrow> (Inr config1, s1)))"

text \<open>
  \<open>n\<close> calls of \<^verbatim>\<open>generate_atoms(upper, z_margin)\<close> on the same builder, one after the
  other; an exception ends the sequence.
\<close>

fun generate_atoms_n :: "collab \<Rightarrow> nat \<Rightarrow> pyval \<Rightarrow> real \<Rightarrow> model \<times> store \<Rightarrow> model \<times> store" where
  "generate_atoms_n E 0 upper z_margin ms = ms"
| "generate_atoms_n E (Suc n) upper z_margin ms =
     (case generate_atoms E upper z_margin ms of
        (Inl e, ms1) \<Rightarrow> ms1
      | (Inr as, ms1) \<Rightarrow> generate_atoms_n E n upper z_margin ms1)"

section \<open>The contract of the scope enumeration\<close>

text \<open>
  The replica of a node in the cell \<open>(i, j, k)\<close>, in fractional coordinates, and the
  atoms of the infinite decorated lattice: every atom of every node in every cell, with
  its absolute position.
\<close>

definition replica :: "node \<Rightarrow> int \<times> int \<times> int \<Rightarrow> vec" where
  "replica n ijk = (case ijk of (i, j, k) \<Rightarrow> vadd (pos_in_cell n) (of_int i, of_int j, of_int k))"

definition lattice_atoms :: "crystal_lattice \<Rightarrow> (string \<times> vec) set" where
  "lattice_atoms lat =
     {c. \<exists>n ijk a. n \<in> set (nodes lat) \<and> a \<in> set (atoms_in_node n) \<and>
        c = (ain_name a, dot (vadd (replica n ijk) (ain_pos a)) (M_1 (unit_cell lat)))}"

text \<open>
  Modelled from the spec: what the spec requires of the scope enumeration of
  \<^verbatim>\<open>graingen.FreshModel\<close> (\<^verbatim>\<open>compute_scope\<close> and \<^verbatim>\<open>get_all_nodes\<close>, which are not among
  the sources) for a lattice and a box. It yields replicas of the lattice's nodes only,
  and it "must over-approximate rather than under-approximate coverage": every replica
  that places an atom inside the box is enumerated.
\<close>

definition scope_covers :: "collab \<Rightarrow> crystal_lattice \<Rightarrow> vec \<Rightarrow> vec \<Rightarrow> bool" where
  "scope_covers E lat vmin vmax =
     ((\<forall>c \<in> set (all_nodes E lat (get_vertices (zip_bounds vmin vmax))).
         fst c \<in> set (nodes lat) \<and> (\<exists>ijk. snd c = replica (fst c) ijk))
      \<and> (\<forall>n ijk a. n \<in> set (nodes lat) \<and> a \<in> set (atoms_in_node n) \<and>
            inside vmin vmax (dot (vadd (replica n ijk) (ain_pos a)) (M_1 (unit_cell lat)))
          \<longrightarrow> (n, replica n ijk) \<in> set (all_nodes E lat (get_vertices (zip_bounds vmin vmax)))))"

text \<open>
  Modelled from the spec: the enumeration is "without omission or duplication": no
  replica is enumerated twice.
\<close>

definition scope_no_repeat :: "collab \<Rightarrow> crystal_lattice \<Rightarrow> vec \<Rightarrow> vec \<Rightarrow> bool" where
  "scope_no_repeat E lat vmin vmax =
     distinct (all_nodes E lat (get_vertices (zip_bounds vmin vmax)))"

text \<open>
  The lattice a run of \<^verbatim>\<open>generate_atoms\<close> fills from: the builder's lattice, after the
  rotation when the builder has one.
\<close>

definition filled_lattice :: "collab \<Rightarrow> model \<Rightarrow> store \<Rightarrow> crystal_lattice" where
  "filled_lattice E m s =
     (case rot_mat m of None \<Rightarrow> s | Some R \<Rightarrow> rotate_lattice E R s (lattice m)) ! lattice m"

section \<open>An instance of the collaborators\<close>

text \<open>
  Modelled from the spec: \<^verbatim>\<open>get_all_nodes\<close> for a scope that runs from \<open>lo\<close> to
  \<open>hi - 1\<close> on each axis: every node of the lattice in every cell of the scope.
\<close>

definition scope_nodes :: "int \<Rightarrow> int \<Rightarrow> crystal_lattice \<Rightarrow> (node \<times> vec) list" where
  "scope_nodes lo hi lat =
     concat (map (\<lambda>k. concat (map (\<lambda>j. concat (map (\<lambda>i.
         map (\<lambda>n. (n, replica n (i, j, k))) (nodes lat))
       [lo..hi - 1])) [lo..hi - 1])) [lo..hi - 1])"

text \<open>
  Modelled from the spec: \<^verbatim>\<open>UnitCell.rotate(matrix)\<close> "applies a 3x3 rotation to the
  cell's basis vectors, recomputing the transform": every row of \<^verbatim>\<open>M_1\<close> is multiplied
  by the matrix.
\<close>

definition rotate_cell :: "mat \<Rightarrow> unit_cell \<Rightarrow> unit_cell" where
  "rotate_cell R uc =
     (case M_1 uc of (r1, r2, r3) \<Rightarrow> uc\<lparr>M_1 := (dot r1 R, dot r2 R, dot r3 R)\<rparr>)"

text \<open>
  Modelled from the spec: \<^verbatim>\<open>round_to_multiplicity(m, val)\<close> rounds the requested
  dimension "up to the nearest multiple" of the repeat length.
\<close>

definition round_up_to_multiple :: "real \<Rightarrow> real \<Rightarrow> real" where
  "round_up_to_multiple m val = m * of_int \<lceil>val / m\<rceil>"

text \<open>
  A concrete environment on which the definitions can be run: \<^verbatim>\<open>gemmi\<close> is not
  installed, the polytype generators raise, the scope is the cells -1 and 0 on each
  axis, a cell with edges along the axes repeats with its own lengths, and the command
  line is that of a run for rock salt.
\<close>

definition sample_collab :: collab where
  "sample_collab =
     \<lparr>gemmi_read = None,
      latt_generate_polytype = (\<lambda>a h p. Inl (ExternalError ''generate_polytype'')),
      graingen_generate_polytype = (\<lambda>a h p. Inl (ExternalError ''generate_polytype'')),
      all_nodes = (\<lambda>lat vs. scope_nodes (- 1) 1 lat),
      rotate = rotate_cell,
      get_orthorhombic_supercell = (\<lambda>uc. (cell_a uc, cell_b uc, cell_c uc)),
      round_to_multiplicity = round_up_to_multiple,
      get_command_line = ''monocryst.py nacl 0.5 0.5 0.5 nacl.cfg''\<rparr>"

text \<open>A quarter turn about the third axis, and the rock-salt lattice of the catalog.\<close>

definition quarter_turn :: mat where
  "quarter_turn = ((0, 1, 0), (- 1, 0, 0), (0, 0, 1))"

definition nacl :: crystal_lattice where
  "nacl = make_lattice (CubicUnitCell 5.64) fcc_nodes
     [AtomInNode ''Na'' (0, 0, 0), AtomInNode ''Cl'' (0.5, 0.5, 0.5)]"

text \<open>
  For the rock-salt lattice in the box of one unit cell: the cell whose replica of a
  node puts the node's atom at the offset \<open>(d, d, d)\<close> inside the box.
\<close>

definition home_cell :: "real \<Rightarrow> node \<Rightarrow> int \<times> int \<times> int" where
  "home_cell d n =
     (case pos_in_cell n of (px, py, pz) \<Rightarrow>
        (if px + d = 1 then - 1 else 0, if py + d = 1 then - 1 else 0, if pz + d = 1 then - 1 else 0))"

section \<open>The Box Filler keeps exactly the atoms inside the box\<close>

lemma atoms_loop_eq:
  "atoms_loop uc vmin vmax p as acc =
     acc @ map (\<lambda>c. Atom (fst c) (snd c))
       (filter (\<lambda>c. inside vmin vmax (snd c))
         (map (\<lambda>a. (ain_name a, dot (vadd p (ain_pos a)) (M_1 uc))) as))"
  by (induction as arbitrary: acc) (simp_all add: place_atom_def inside_def Let_def)

lemma nodes_loop_eq:
  "nodes_loop uc vmin vmax cs acc =
     acc @ map (\<lambda>c. Atom (fst c) (snd c))
       (filter (\<lambda>c. inside vmin vmax (snd c))
         (concat (map (\<lambda>(n, p). map (\<lambda>a. (ain_name a, dot (vadd p (ain_pos a)) (M_1 uc)))
            (atoms_in_node n)) cs)))"
proof (induction cs arbitrary: acc)
  case Nil
  show ?case by simp
next
  case (Cons c cs)
  obtain n p where c: "c = (n, p)" by (cases c)
  show ?case
    unfolding c by (simp add: Cons.IH atoms_loop_eq)
qed

lemma do_gen_atoms_atoms:
  "atoms (do_gen_atoms E s m vmin vmax) =
     atoms m @ map (\<lambda>c. Atom (fst c) (snd c))
       (filter (\<lambda>c. inside vmin vmax (snd c)) (candidates E s m vmin vmax))"
  by (simp add: do_gen_atoms_def Let_def nodes_loop_eq candidates_def)

text \<open>
  C1. The atoms a run of \<^verbatim>\<open>_do_gen_atoms\<close> appends to the atom list are, in order,
  exactly the candidate atoms whose position \<open>xyz\<close> satisfies \<open>vmin < xyz\<close> and
  \<open>xyz \<le> vmax\<close> on all three axes; so an atom is among the appended ones if and only if
  it is a candidate and passes the half-open test, and a candidate failing the test on
  any axis is not appended.
\<close>

theorem do_gen_atoms_half_open:
  "atoms (do_gen_atoms E s m vmin vmax) =
     atoms m @ map (\<lambda>c. Atom (fst c) (snd c))
       (filter (\<lambda>c. all_lt vmin (snd c) \<and> all_le (snd c) vmax) (candidates E s m vmin vmax))
   \<and> (Atom nm xyz \<in> set (drop (length (atoms m)) (atoms (do_gen_atoms E s m vmin vmax)))
        \<longleftrightarrow> (nm, xyz) \<in> set (candidates E s m vmin vmax) \<and> all_lt vmin xyz \<and> all_le xyz vmax)"
proof -
  have eq: "atoms (do_gen_atoms E s m vmin vmax) =
     atoms m @ map (\<lambda>c. Atom (fst c) (snd c))
       (filter (\<lambda>c. all_lt vmin (snd c) \<and> all_le (snd c) vmax) (candidates E s m vmin vmax))"
    using do_gen_atoms_atoms [of E s m vmin vmax] by (simp add: inside_def)
  have "Atom nm xyz \<in> set (drop (length (atoms m)) (atoms (do_gen_atoms E s m vmin vmax)))
        \<longleftrightarrow> (nm, xyz) \<in> set (candidates E s m vmin vmax) \<and> all_lt vmin xyz \<and> all_le xyz vmax"
    unfolding eq by force
  with eq show ?thesis by blast
qed

section \<open>The box bounds\<close>

text \<open>
  C2. With \<^verbatim>\<open>upper=None\<close>, \<^verbatim>\<open>get_box_to_fill\<close> returns, for the requested
  dimensions \<open>(dx, dy, dz)\<close> of the builder, \<open>vmin = -dim/2 + 0.001\<close> and
  \<open>vmax = dim/2 + 0.001\<close> on every axis, whatever the margin and whatever is passed as
  its \<^verbatim>\<open>dim\<close> argument (\<^verbatim>\<open>generate_atoms\<close> passes \<^verbatim>\<open>self.dim\<close>).
\<close>

theorem get_box_to_fill_full:
  "get_box_to_fill (m\<lparr>dim := (dx, dy, dz)\<rparr>) d PyNone z_margin =
     Inr ((- dx / 2 + 0.001, - dy / 2 + 0.001, - dz / 2 + 0.001),
          (dx / 2 + 0.001, dy / 2 + 0.001, dz / 2 + 0.001))"
  by (simp add: get_box_to_fill_def py_in_def py_is_def py_eq_def eps_def
      halve_def vneg_def vshift_def Let_def)

text \<open>
  C3. With \<^verbatim>\<open>upper=True\<close> the bounds are those of the full box, except that \<open>vmin\<close> on
  the third axis is the epsilon 0.001 and, when \<^verbatim>\<open>z_margin\<close> is nonzero, \<open>vmax\<close> on the
  third axis is reduced by \<open>z_margin/2\<close>. With \<^verbatim>\<open>upper=False\<close> they are those of the full
  box, except that \<open>vmax\<close> on the third axis is the epsilon and, when \<^verbatim>\<open>z_margin\<close> is
  nonzero, \<open>vmin\<close> on the third axis is increased by \<open>z_margin/2\<close>. The first two axes
  are those of the full box in both cases.
\<close>

theorem get_box_to_fill_half:
  "get_box_to_fill (m\<lparr>dim := (dx, dy, dz)\<rparr>) d (PyBool True) z_margin =
     Inr ((- dx / 2 + 0.001, - dy / 2 + 0.001, 0.001),
          (dx / 2 + 0.001, dy / 2 + 0.001,
           if z_margin \<noteq> 0 then dz / 2 + 0.001 - z_margin / 2 else dz / 2 + 0.001))
   \<and> get_box_to_fill (m\<lparr>dim := (dx, dy, dz)\<rparr>) d (PyBool False) z_margin =
     Inr ((- dx / 2 + 0.001, - dy / 2 + 0.001,
           if z_margin \<noteq> 0 then - dz / 2 + 0.001 + z_margin / 2 else - dz / 2 + 0.001),
          (dx / 2 + 0.001, dy / 2 + 0.001, 0.001))"
  by (simp add: get_box_to_fill_def py_in_def py_is_def py_eq_def eps_def
      halve_def vneg_def vshift_def set2_def get2_def Let_def)

section \<open>Values of \<^verbatim>\<open>upper\<close> outside the three states\<close>

text \<open>
  A value that is neither identical nor equal to \<^verbatim>\<open>True\<close>, \<^verbatim>\<open>False\<close> or \<^verbatim>\<open>None\<close>
  fails the assertion of \<^verbatim>\<open>get_box_to_fill\<close>: the run raises, the atom list of the
  model is the empty list it was reset to, and the store is untouched.
\<close>

lemma generate_atoms_rejects:
  "\<not> py_in upper [PyBool True, PyBool False, PyNone] \<Longrightarrow>
   generate_atoms E upper z_margin (m, s) = (Inl AssertionError, m\<lparr>atoms := []\<rparr>, s)"
  by (simp add: generate_atoms_def get_box_to_fill_def Let_def)

lemma generate_atoms_rejects_witness:
  "\<not> py_in (PyStr ''top'') [PyBool True, PyBool False, PyNone]
   \<and> generate_atoms sample_collab (PyStr ''top'') 0
        (RotatedMonocrystal 0 (5.64, 5.64, 5.64) None None, [nacl])
      = (Inl AssertionError, RotatedMonocrystal 0 (5.64, 5.64, 5.64) None None, [nacl])"
proof -
  have a: "\<not> py_in (PyStr ''top'') [PyBool True, PyBool False, PyNone]"
    by (simp add: py_in_def py_is_def py_eq_def)
  from generate_atoms_rejects [OF a, of sample_collab 0 "RotatedMonocrystal 0 (5.64, 5.64, 5.64) None None" "[nacl]"] a
  show ?thesis by (simp add: RotatedMonocrystal_def)
qed

text \<open>
  C6. The claim fails for the integer 1 (and likewise 0, 1.0 and 0.0): Python's
  \<^verbatim>\<open>1 in (True, False, None)\<close> holds because \<^verbatim>\<open>1 == True\<close>, so the assertion passes;
  neither \<^verbatim>\<open>upper is True\<close> nor \<^verbatim>\<open>upper is False\<close> holds, so the run fills the full
  box and returns an atom list, exactly as with \<^verbatim>\<open>upper=None\<close>.
\<close>

theorem generate_atoms_accepts_int_one:
  "py_in (PyInt 1) [PyBool True, PyBool False, PyNone]
   \<and> get_box_to_fill m d (PyInt 1) z_margin = get_box_to_fill m d PyNone z_margin
   \<and> generate_atoms E (PyInt 1) z_margin (m, s) = generate_atoms E PyNone z_margin (m, s)
   \<and> (\<exists>as. fst (generate_atoms E (PyInt 1) z_margin (m, s)) = Inr as)"
  by (simp add: generate_atoms_def get_box_to_fill_def py_in_def py_is_def py_eq_def Let_def
      split: prod.splits)

section \<open>Lattice Lookup\<close>

lemma lower_char_idem: "lower_char (lower_char c) = lower_char c"
  by (simp add: lower_char_def)

lemma lower_idem: "lower (lower s) = lower s"
  by (simp add: lower_def lower_char_idem)

lemma suffix_lower: "suffix t s \<Longrightarrow> suffix (lower t) (lower s)"
  by (auto simp: suffix_def lower_def)

lemma lower_cif: "lower ''.cif'' = ''.cif''"
  by code_simp

lemma lower_Xx: "lower ''Xx'' = ''xx''"
  by code_simp

lemma lower_Kr: "lower ''Kr'' = ''kr''"
  by code_simp

lemma lower_NaCl: "lower ''NaCl'' = ''nacl''"
  by code_simp

lemma lower_ACIF: "lower ''A.CIF'' = ''a.cif''"
  by code_simp

lemma make_nacl: "make_nacl_lattice [''Na'', ''Cl''] 5.64 = Inr nacl"
  by (simp add: make_nacl_lattice_def nacl_def)

text \<open>
  C7, as amended. For a name that does not end in \<^verbatim>\<open>.cif\<close> and whose lowercased form
  is no catalog entry, \<^verbatim>\<open>get_named_lattice\<close> raises \<^verbatim>\<open>ValueError\<close> with the message
  \<^verbatim>\<open>Unknown lattice: \<close> followed by the lowercased name, and returns no lattice.
\<close>

theorem get_named_lattice_unknown:
  "\<not> endswith name ''.cif'' \<Longrightarrow> \<not> in_catalog (lower name) \<Longrightarrow>
   get_named_lattice E name = Inl (ValueError (''Unknown lattice: '' @ lower name))"
  by (simp add: get_named_lattice_def lookup_def in_catalog_def catalog_names_def)

text \<open>The amended C7 at the name \<^verbatim>\<open>Kr\<close>.\<close>

theorem get_named_lattice_unknown_witness:
  "\<not> endswith ''Kr'' ''.cif'' \<and> \<not> in_catalog (lower ''Kr'')
   \<and> get_named_lattice sample_collab ''Kr'' = Inl (ValueError ''Unknown lattice: kr'')"
proof -
  have a: "\<not> endswith ''Kr'' ''.cif''"
    by (simp add: endswith_def suffix_to_prefix)
  have b: "\<not> in_catalog (lower ''Kr'')"
    by (simp add: lower_Kr in_catalog_def catalog_names_def startswith_def)
  from get_named_lattice_unknown [OF a b, of sample_collab] a b show ?thesis
    by (simp add: lower_Kr)
qed

text \<open>
  C7 as stated fails at the name \<^verbatim>\<open>Xx\<close>: it does not end in \<^verbatim>\<open>.cif\<close>, its
  lowercased form is no catalog entry, and the message of the error, which names
  \<^verbatim>\<open>xx\<close>, does not contain the identifier \<^verbatim>\<open>Xx\<close> that was passed.
\<close>

theorem get_named_lattice_message_counterexample:
  "\<not> endswith ''Xx'' ''.cif'' \<and> \<not> in_catalog (lower ''Xx'')
   \<and> get_named_lattice sample_collab ''Xx'' = Inl (ValueError ''Unknown lattice: xx'')
   \<and> \<not> sublist ''Xx'' ''Unknown lattice: xx''"
  by (simp add: get_named_lattice_def lookup_def in_catalog_def catalog_names_def lower_Xx
     endswith_def startswith_def suffix_to_prefix sublist_Cons_right)

text \<open>
  C9, as amended. For a name whose lowercased form does not end in \<^verbatim>\<open>.cif\<close>,
  \<^verbatim>\<open>get_named_lattice\<close> on the name is \<^verbatim>\<open>get_named_lattice\<close> on the lowercased name:
  the same lattice or the same error.
\<close>

theorem get_named_lattice_lower:
  "\<not> endswith (lower name) ''.cif'' \<Longrightarrow>
   get_named_lattice E name = get_named_lattice E (lower name)"
  using suffix_lower [of "''.cif''" name]
  by (auto simp add: get_named_lattice_def lower_idem endswith_def lower_cif)

text \<open>The amended C9 at the name \<^verbatim>\<open>NaCl\<close>, which gives the rock-salt lattice.\<close>

theorem get_named_lattice_lower_witness:
  "\<not> endswith (lower ''NaCl'') ''.cif''
   \<and> get_named_lattice sample_collab ''NaCl'' = get_named_lattice sample_collab ''nacl''
   \<and> get_named_lattice sample_collab ''NaCl'' = Inr nacl"
proof -
  have a: "\<not> endswith (lower ''NaCl'') ''.cif''"
    by (simp add: lower_NaCl endswith_def suffix_to_prefix)
  have "get_named_lattice sample_collab ''nacl'' = Inr nacl"
    by (simp add: get_named_lattice_def lookup_def lower_def lower_char_def
        make_nacl_lattice_def nacl_def endswith_def suffix_to_prefix)
  with get_named_lattice_lower [OF a, of sample_collab] a show ?thesis
    by (simp add: lower_NaCl)
qed

text \<open>
  C9 as stated fails at the name \<^verbatim>\<open>A.CIF\<close>, which does not end in \<^verbatim>\<open>.cif\<close>: it is
  lowercased and looked up, and is an unknown lattice, while its lowercased form
  \<^verbatim>\<open>a.cif\<close> is taken for a file and handed to the CIF loader (which exits here,
  \<^verbatim>\<open>gemmi\<close> being absent).
\<close>

theorem get_named_lattice_case_counterexample:
  \<open>\<not> endswith ''A.CIF'' ''.cif''
   \<and> get_named_lattice sample_collab ''A.CIF'' = Inl (ValueError ''Unknown lattice: a.cif'')
   \<and> get_named_lattice sample_collab (lower ''A.CIF'') =
       Inl (SystemExit ''Gemmi is needed to read cif files. Try "pip install gemmi".'')\<close>
  by (simp add: get_named_lattice_def lookup_def lower_ACIF make_lattice_from_cif_def sample_collab_def
     endswith_def startswith_def suffix_to_prefix)

section \<open>The Driver leaves the caller's lattice alone\<close>

text \<open>
  A run of \<^verbatim>\<open>generate_atoms\<close> writes to no object of the store but the lattice of its
  own model.
\<close>

lemma generate_atoms_frame:
  "a \<noteq> lattice m \<Longrightarrow> snd (snd (generate_atoms E upper z_margin (m, s))) ! a = s ! a"
  by (simp add: generate_atoms_def Let_def rotate_lattice_def
      split: sum.splits prod.splits option.splits)

lemma do_gen_atoms_fields:
  "lattice (do_gen_atoms E s m vmin vmax) = lattice m"
  "rot_mat (do_gen_atoms E s m vmin vmax) = rot_mat m"
  "dim (do_gen_atoms E s m vmin vmax) = dim m"
  by (simp_all add: do_gen_atoms_def Let_def)

text \<open>
  C8. \<^verbatim>\<open>mono\<close> leaves its lattice argument unchanged: the lattice at the address
  passed is the same object with the same contents after the run, and so is every
  object the store held before. The builder that is returned holds a new object, a copy
  of the lattice.
\<close>

theorem mono_keeps_lattice:
  "l < length s \<Longrightarrow>
   snd (mono E s l nx ny nz) ! l = s ! l
   \<and> take (length s) (snd (mono E s l nx ny nz)) = s
   \<and> (\<exists>config. fst (mono E s l nx ny nz) = Inr config \<and> lattice config = length s
        \<and> lattice config \<noteq> l \<and> snd (mono E s l nx ny nz) ! lattice config = s ! l)"
  by (simp add: mono_def Let_def deepcopy_def generate_atoms_def get_box_to_fill_def
      RotatedMonocrystal_def py_in_def py_is_def py_eq_def do_gen_atoms_fields nth_append
      split: prod.splits)

text \<open>C8 for the rock-salt lattice as the only object of the store.\<close>

theorem mono_keeps_lattice_witness:
  "snd (mono sample_collab [nacl] 0 0.5 0.5 0.5) ! 0 = nacl
   \<and> snd (mono sample_collab [nacl] 0 0.5 0.5 0.5) = [nacl, nacl]
   \<and> (\<exists>config. fst (mono sample_collab [nacl] 0 0.5 0.5 0.5) = Inr config \<and> lattice config = 1)"
proof -
  have "(0::nat) < length [nacl]" by simp
  from mono_keeps_lattice [OF this, of sample_collab "0.5" "0.5" "0.5"]
  have a: "snd (mono sample_collab [nacl] 0 0.5 0.5 0.5) ! 0 = nacl"
    and b: "\<exists>config. fst (mono sample_collab [nacl] 0 0.5 0.5 0.5) = Inr config \<and> lattice config = 1"
    by auto
  have "snd (mono sample_collab [nacl] 0 0.5 0.5 0.5) = [nacl, nacl]"
    by (simp add: mono_def Let_def deepcopy_def generate_atoms_def get_box_to_fill_def
      RotatedMonocrystal_def py_in_def py_is_def py_eq_def split: prod.splits)
  with a b show ?thesis by blast
qed

section \<open>Rotations compound over successive runs\<close>

lemma box_ok:
  "py_in upper [PyBool True, PyBool False, PyNone] \<Longrightarrow> \<exists>b. get_box_to_fill m d upper z = Inr b"
  unfolding get_box_to_fill_def Let_def
  by (simp only: if_True if_False not_True_eq_False not_not split: if_split) blast

lemma generate_atoms_step:
  assumes "rot_mat m = Some R" and "py_in upper [PyBool True, PyBool False, PyNone]"
    and "lattice m < length s"
  shows "\<exists>as m1 s1. generate_atoms E upper z (m, s) = (Inr as, m1, s1)
           \<and> rot_mat m1 = Some R \<and> lattice m1 = lattice m \<and> length s1 = length s
           \<and> unit_cell (s1 ! lattice m) = rotate E R (unit_cell (s ! lattice m))"
proof -
  obtain b where b: "get_box_to_fill (m\<lparr>atoms := []\<rparr>) (dim (m\<lparr>atoms := []\<rparr>)) upper z = Inr b"
    using box_ok [OF assms(2)] by blast
  obtain vmin vmax where vb: "b = (vmin, vmax)" by (cases b)
  show ?thesis
    using assms(1,3) b vb
    by (simp add: generate_atoms_def Let_def do_gen_atoms_fields rotate_lattice_def)
qed

lemma generate_atoms_n_state:
  "rot_mat m = Some R \<Longrightarrow> py_in upper [PyBool True, PyBool False, PyNone] \<Longrightarrow>
   lattice m < length s \<Longrightarrow>
   rot_mat (fst (generate_atoms_n E n upper z (m, s))) = Some R
   \<and> lattice (fst (generate_atoms_n E n upper z (m, s))) = lattice m
   \<and> length (snd (generate_atoms_n E n upper z (m, s))) = length s
   \<and> unit_cell (snd (generate_atoms_n E n upper z (m, s)) ! lattice m) =
       (rotate E R ^^ n) (unit_cell (s ! lattice m))"
proof (induction n arbitrary: m s)
  case 0
  then show ?case by simp
next
  case (Suc n)
  obtain as m1 s1 where st: "generate_atoms E upper z (m, s) = (Inr as, m1, s1)"
      and r: "rot_mat m1 = Some R" and l: "lattice m1 = lattice m" and len: "length s1 = length s"
      and c: "unit_cell (s1 ! lattice m) = rotate E R (unit_cell (s ! lattice m))"
    using generate_atoms_step [OF Suc.prems(1) Suc.prems(2) Suc.prems(3)] by blast
  have "rot_mat (fst (generate_atoms_n E n upper z (m1, s1))) = Some R
   \<and> lattice (fst (generate_atoms_n E n upper z (m1, s1))) = lattice m1
   \<and> length (snd (generate_atoms_n E n upper z (m1, s1))) = length s1
   \<and> unit_cell (snd (generate_atoms_n E n upper z (m1, s1)) ! lattice m1) =
       (rotate E R ^^ n) (unit_cell (s1 ! lattice m1))"
    using Suc.IH [of m1 s1] r l len Suc.prems by simp
  then show ?case
    using st l c len by (simp add: funpow_swap1)
qed

lemma filled_lattice_cell:
  "rot_mat m = Some R \<Longrightarrow> lattice m < length s \<Longrightarrow>
   unit_cell (filled_lattice E m s) = rotate E R (unit_cell (s ! lattice m))"
  by (simp add: filled_lattice_def rotate_lattice_def)

text \<open>
  C10. For a builder with a rotation matrix \<open>R\<close>, after \<open>n\<close> runs of
  \<^verbatim>\<open>generate_atoms\<close> (with an accepted \<^verbatim>\<open>upper\<close>) the unit cell of its lattice is the
  initial cell rotated \<open>n\<close> times, and the next run fills from the cell rotated
  \<open>n + 1\<close> times: every run rotates the cell again.
\<close>

theorem generate_atoms_n_rotates:
  "rot_mat m = Some R \<Longrightarrow> py_in upper [PyBool True, PyBool False, PyNone] \<Longrightarrow>
   lattice m < length s \<Longrightarrow>
   unit_cell (snd (generate_atoms_n E n upper z (m, s)) ! lattice m) =
     (rotate E R ^^ n) (unit_cell (s ! lattice m))
   \<and> unit_cell (filled_lattice E (fst (generate_atoms_n E n upper z (m, s)))
        (snd (generate_atoms_n E n upper z (m, s)))) =
     (rotate E R ^^ Suc n) (unit_cell (s ! lattice m))"
proof -
  assume a: "rot_mat m = Some R" "py_in upper [PyBool True, PyBool False, PyNone]"
    "lattice m < length s"
  note st = generate_atoms_n_state [OF a, of E n z]
  have "unit_cell (filled_lattice E (fst (generate_atoms_n E n upper z (m, s)))
        (snd (generate_atoms_n E n upper z (m, s)))) =
     rotate E R (unit_cell (snd (generate_atoms_n E n upper z (m, s)) ! lattice m))"
    using filled_lattice_cell [of "fst (generate_atoms_n E n upper z (m, s))" R
        "snd (generate_atoms_n E n upper z (m, s))" E] st a(3)
    by simp
  with st show ?thesis by simp
qed

text \<open>The rock-salt lattice: its nodes and its cell matrix.\<close>

lemma nacl_nodes:
  "nodes nacl = map (\<lambda>p. Node p [AtomInNode ''Na'' (0, 0, 0), AtomInNode ''Cl'' (0.5, 0.5, 0.5)]) fcc_nodes"
  by (simp add: nacl_def make_lattice_def)

lemma nacl_M_1: "M_1 (unit_cell nacl) = ((5.64, 0, 0), (0, 5.64, 0), (0, 0, 5.64))"
  by (simp add: nacl_def make_lattice_def CubicUnitCell_def OrthorhombicUnitCell_def)

text \<open>
  C10 for the rock-salt lattice and a quarter turn about the third axis: after one run
  the cell is turned by a quarter, after two runs by a half, so the second run fills
  from a cell oriented differently from that of the first.
\<close>

theorem generate_atoms_n_rotates_witness:
  "M_1 (unit_cell (snd (generate_atoms_n sample_collab 1 PyNone 0
       (RotatedMonocrystal 0 (5.64, 5.64, 5.64) (Some quarter_turn) None, [nacl])) ! 0))
     = ((0, 5.64, 0), (- 5.64, 0, 0), (0, 0, 5.64))
   \<and> M_1 (unit_cell (snd (generate_atoms_n sample_collab 2 PyNone 0
       (RotatedMonocrystal 0 (5.64, 5.64, 5.64) (Some quarter_turn) None, [nacl])) ! 0))
     = ((- 5.64, 0, 0), (0, - 5.64, 0), (0, 0, 5.64))"
proof -
  let ?m = "RotatedMonocrystal 0 (5.64, 5.64, 5.64) (Some quarter_turn) None"
  have r: "rot_mat ?m = Some quarter_turn" and l: "lattice ?m = 0"
    by (simp_all add: RotatedMonocrystal_def)
  have u: "py_in PyNone [PyBool True, PyBool False, PyNone]"
    by (simp add: py_in_def py_is_def)
  have len: "lattice ?m < length [nacl]" by (simp add: RotatedMonocrystal_def)
  have rt: "rotate sample_collab = rotate_cell" by (simp add: sample_collab_def)
  note h = generate_atoms_n_rotates [OF r u len, of sample_collab _ 0]
  have "unit_cell (snd (generate_atoms_n sample_collab 1 PyNone 0 (?m, [nacl])) ! 0)
      = rotate_cell quarter_turn (unit_cell nacl)"
    using h [of 1] by (simp add: RotatedMonocrystal_def rt)
  moreover have "unit_cell (snd (generate_atoms_n sample_collab 2 PyNone 0 (?m, [nacl])) ! 0)
      = rotate_cell quarter_turn (rotate_cell quarter_turn (unit_cell nacl))"
    using h [of 2] by (simp add: RotatedMonocrystal_def rt numeral_2_eq_2)
  ultimately show ?thesis
    by (simp add: rotate_cell_def quarter_turn_def dot_def nacl_M_1)
qed

section \<open>The two half boxes make up the full box\<close>

lemma box_full_eq:
  "get_box_to_fill (m\<lparr>dim := (dx, dy, dz)\<rparr>) d PyNone 0 =
     Inr ((- dx / 2 + 0.001, - dy / 2 + 0.001, - dz / 2 + 0.001),
          (dx / 2 + 0.001, dy / 2 + 0.001, dz / 2 + 0.001))"
  by (simp add: get_box_to_fill_def py_in_def py_is_def py_eq_def eps_def
      halve_def vneg_def vshift_def Let_def)

lemma box_half_eq:
  "get_box_to_fill (m\<lparr>dim := (dx, dy, dz)\<rparr>) d (PyBool True) 0 =
     Inr ((- dx / 2 + 0.001, - dy / 2 + 0.001, 0.001),
          (dx / 2 + 0.001, dy / 2 + 0.001, dz / 2 + 0.001))
   \<and> get_box_to_fill (m\<lparr>dim := (dx, dy, dz)\<rparr>) d (PyBool False) 0 =
     Inr ((- dx / 2 + 0.001, - dy / 2 + 0.001, - dz / 2 + 0.001),
          (dx / 2 + 0.001, dy / 2 + 0.001, 0.001))"
  by (simp add: get_box_to_fill_def py_in_def py_is_def py_eq_def eps_def
      halve_def vneg_def vshift_def set2_def get2_def Let_def)

text \<open>
  Under the contract of the scope enumeration, the candidates inside the box are the
  atoms of the infinite decorated lattice inside the box.
\<close>

lemma candidates_set:
  "set (candidates E s m vmin vmax) =
     {c. \<exists>n p a. (n, p) \<in> set (all_nodes E (s ! lattice m) (get_vertices (zip_bounds vmin vmax)))
          \<and> a \<in> set (atoms_in_node n)
          \<and> c = (ain_name a, dot (vadd p (ain_pos a)) (M_1 (unit_cell (s ! lattice m))))}"
  by (auto simp add: candidates_def) blast

lemma candidates_in_box:
  assumes "scope_covers E (s ! lattice m) vmin vmax"
  shows "{c \<in> set (candidates E s m vmin vmax). inside vmin vmax (snd c)} =
         {c \<in> lattice_atoms (s ! lattice m). inside vmin vmax (snd c)}"
proof (intro set_eqI iffI)
  fix c
  assume "c \<in> {c \<in> set (candidates E s m vmin vmax). inside vmin vmax (snd c)}"
  then obtain n p a where np: "(n, p) \<in> set (all_nodes E (s ! lattice m) (get_vertices (zip_bounds vmin vmax)))"
      and a: "a \<in> set (atoms_in_node n)"
      and c: "c = (ain_name a, dot (vadd p (ain_pos a)) (M_1 (unit_cell (s ! lattice m))))"
      and ins: "inside vmin vmax (snd c)"
    unfolding candidates_set by blast
  from assms np have "n \<in> set (nodes (s ! lattice m))" and "\<exists>ijk. p = replica n ijk"
    unfolding scope_covers_def by force+
  then obtain ijk where "p = replica n ijk" by blast
  with \<open>n \<in> set (nodes (s ! lattice m))\<close> a c have "c \<in> lattice_atoms (s ! lattice m)"
    unfolding lattice_atoms_def by blast
  with ins show "c \<in> {c \<in> lattice_atoms (s ! lattice m). inside vmin vmax (snd c)}" by simp
next
  fix c
  assume "c \<in> {c \<in> lattice_atoms (s ! lattice m). inside vmin vmax (snd c)}"
  then obtain n ijk a where n: "n \<in> set (nodes (s ! lattice m))" and a: "a \<in> set (atoms_in_node n)"
      and c: "c = (ain_name a, dot (vadd (replica n ijk) (ain_pos a)) (M_1 (unit_cell (s ! lattice m))))"
      and ins: "inside vmin vmax (snd c)"
    unfolding lattice_atoms_def by blast
  from ins c have "inside vmin vmax (dot (vadd (replica n ijk) (ain_pos a)) (M_1 (unit_cell (s ! lattice m))))"
    by simp
  with assms n a have "(n, replica n ijk) \<in> set (all_nodes E (s ! lattice m) (get_vertices (zip_bounds vmin vmax)))"
    unfolding scope_covers_def by blast
  with a c have "c \<in> set (candidates E s m vmin vmax)"
    unfolding candidates_set by blast
  with ins show "c \<in> {c \<in> set (candidates E s m vmin vmax). inside vmin vmax (snd c)}" by simp
qed

lemma get_box_to_fill_atoms [simp]:
  "get_box_to_fill (m\<lparr>atoms := x\<rparr>) d upper z = get_box_to_fill m d upper z"
  by (simp add: get_box_to_fill_def)

lemma generate_atoms_result:
  assumes "get_box_to_fill m (dim m) upper z = Inr (vmin, vmax)"
    and "scope_covers E (filled_lattice E m s) vmin vmax"
  shows "\<exists>as. fst (generate_atoms E upper z (m, s)) = Inr as
           \<and> set as = (\<lambda>c. Atom (fst c) (snd c)) `
                {c \<in> lattice_atoms (filled_lattice E m s). inside vmin vmax (snd c)}"
proof -
  define s1 where "s1 = (case rot_mat m of None \<Rightarrow> s | Some R \<Rightarrow> rotate_lattice E R s (lattice m))"
  define m1 where "m1 = m\<lparr>atoms := []\<rparr>"
  have L: "s1 ! lattice m1 = filled_lattice E m s"
    by (simp add: s1_def m1_def filled_lattice_def)
  have g: "fst (generate_atoms E upper z (m, s)) = Inr (atoms (do_gen_atoms E s1 m1 vmin vmax))"
    using assms(1) by (cases "rot_mat m") (simp_all add: generate_atoms_def Let_def s1_def m1_def)
  have "set (atoms (do_gen_atoms E s1 m1 vmin vmax)) =
      (\<lambda>c. Atom (fst c) (snd c)) ` {c \<in> set (candidates E s1 m1 vmin vmax). inside vmin vmax (snd c)}"
    by (simp add: do_gen_atoms_atoms m1_def)
  also have "{c \<in> set (candidates E s1 m1 vmin vmax). inside vmin vmax (snd c)} =
      {c \<in> lattice_atoms (s1 ! lattice m1). inside vmin vmax (snd c)}"
    using assms(2) L by (intro candidates_in_box) simp
  finally show ?thesis using g L by simp
qed

lemma inj_Atom: "inj (\<lambda>c. Atom (fst c) (snd c))"
  by (auto simp: inj_def prod_eq_iff)

lemma box_split:
  assumes "get_box_to_fill m (dim m) (PyBool True) 0 = Inr (umin, umax)"
      and "get_box_to_fill m (dim m) (PyBool False) 0 = Inr (lmin, lmax)"
      and "get_box_to_fill m (dim m) PyNone 0 = Inr (fmin, fmax)"
  shows "(inside umin umax x \<or> inside lmin lmax x) = inside fmin fmax x"
    and "\<not> (inside umin umax x \<and> inside lmin lmax x)"
proof -
  obtain dx dy dz where d: "dim m = (dx, dy, dz)" by (cases "dim m")
  obtain a b c where x: "x = (a, b, c)" by (cases x)
  have m: "m = m\<lparr>dim := (dx, dy, dz)\<rparr>" using d by simp
  note h = box_half_eq [where m = m and dx = dx and dy = dy and dz = dz and d = "dim m"]
    box_full_eq [where m = m and dx = dx and dy = dy and dz = dz and d = "dim m"]
  from assms h m show "(inside umin umax x \<or> inside lmin lmax x) = inside fmin fmax x"
    by (auto simp add: inside_def all_lt_def all_le_def x)
  from assms h m show "\<not> (inside umin umax x \<and> inside lmin lmax x)"
    by (auto simp add: inside_def all_lt_def all_le_def x)
qed

text \<open>
  C5. Three runs of \<^verbatim>\<open>generate_atoms\<close> from the same builder and store, with
  \<^verbatim>\<open>upper=True\<close>, \<^verbatim>\<open>upper=False\<close> and \<^verbatim>\<open>upper=None\<close>, all with zero margin: when the
  scope enumeration meets its contract on the three boxes, the atoms of the two halves
  together are the atoms of the full box, and no atom is in both halves. This holds for
  every lattice, every dimensions vector and with or without a rotation.
\<close>

theorem halves_make_full_box:
  assumes "get_box_to_fill m (dim m) (PyBool True) 0 = Inr (umin, umax)"
      and "get_box_to_fill m (dim m) (PyBool False) 0 = Inr (lmin, lmax)"
      and "get_box_to_fill m (dim m) PyNone 0 = Inr (fmin, fmax)"
      and "scope_covers E (filled_lattice E m s) umin umax"
      and "scope_covers E (filled_lattice E m s) lmin lmax"
      and "scope_covers E (filled_lattice E m s) fmin fmax"
  shows "\<exists>au al af.
           fst (generate_atoms E (PyBool True) 0 (m, s)) = Inr au
         \<and> fst (generate_atoms E (PyBool False) 0 (m, s)) = Inr al
         \<and> fst (generate_atoms E PyNone 0 (m, s)) = Inr af
         \<and> set au \<union> set al = set af \<and> set au \<inter> set al = {}"
proof -
  let ?L = "lattice_atoms (filled_lattice E m s)"
  let ?A = "\<lambda>c. Atom (fst c) (snd c)"
  obtain au where au: "fst (generate_atoms E (PyBool True) 0 (m, s)) = Inr au"
      "set au = ?A ` {c \<in> ?L. inside umin umax (snd c)}"
    using generate_atoms_result [OF assms(1) assms(4)] by blast
  obtain al where al: "fst (generate_atoms E (PyBool False) 0 (m, s)) = Inr al"
      "set al = ?A ` {c \<in> ?L. inside lmin lmax (snd c)}"
    using generate_atoms_result [OF assms(2) assms(5)] by blast
  obtain af where af: "fst (generate_atoms E PyNone 0 (m, s)) = Inr af"
      "set af = ?A ` {c \<in> ?L. inside fmin fmax (snd c)}"
    using generate_atoms_result [OF assms(3) assms(6)] by blast
  note sp = box_split [OF assms(1) assms(2) assms(3)]
  have "{c \<in> ?L. inside umin umax (snd c)} \<union> {c \<in> ?L. inside lmin lmax (snd c)} =
        {c \<in> ?L. inside fmin fmax (snd c)}"
    using sp(1) by blast
  then have u: "set au \<union> set al = set af"
    unfolding au(2) al(2) af(2) image_Un [symmetric] by simp
  have "{c \<in> ?L. inside umin umax (snd c)} \<inter> {c \<in> ?L. inside lmin lmax (snd c)} = {}"
    using sp(2) by blast
  then have i: "set au \<inter> set al = {}"
    unfolding au(2) al(2) image_Int [OF inj_Atom, symmetric] by simp
  from au(1) al(1) af(1) u i show ?thesis by blast
qed

section \<open>Rock salt in one unit cell\<close>

text \<open>
  A coordinate \<open>(c + i) * 5.64\<close> with \<open>c\<close> one of 0, 1/2, 1 and \<open>i\<close> an integer lies
  in the interval from -2.819 (excluded) to 2.821 (included) for exactly one \<open>i\<close>.
\<close>

lemma coord_cell:
  fixes i :: int and c :: real
  assumes "- 2.819 < (c + of_int i) * 5.64" and "(c + of_int i) * 5.64 \<le> 2.821"
    and "c = 0 \<or> c = 1/2 \<or> c = 1"
  shows "i = (if c = 1 then - 1 else 0)"
proof -
  have lo: "- 1 < c + real_of_int i" using assms(1) by simp
  have hi: "c + real_of_int i < 1" using assms(2) by simp
  from assms(3) show ?thesis
  proof (elim disjE)
    assume c: "c = 0"
    from lo hi c have "- 1 < i" "i < 1" by simp_all
    with c show ?thesis by simp
  next
    assume c: "c = 1/2"
    from lo hi c have "real_of_int (- 2) < real_of_int i" "real_of_int i < real_of_int 1" by simp_all
    then have "- 2 < i" "i < 1" by (simp_all only: of_int_less_iff)
    moreover have "i \<noteq> - 1"
    proof
      assume "i = - 1"
      with assms(1) c show False by simp
    qed
    ultimately show ?thesis using c by simp
  next
    assume c: "c = 1"
    from lo hi c have "real_of_int (- 2) < real_of_int i" "real_of_int i < real_of_int 0" by simp_all
    then have "- 2 < i" "i < 0" by (simp_all only: of_int_less_iff)
    with c show ?thesis by simp
  qed
qed

lemma nacl_xyz:
  "dot (vadd (replica (Node (px, py, pz) as) (i, j, k)) (ox, oy, oz)) (M_1 (unit_cell nacl)) =
     ((px + ox + of_int i) * 5.64, (py + oy + of_int j) * 5.64, (pz + oz + of_int k) * 5.64)"
  by (simp add: nacl_M_1 dot_def vadd_def replica_def algebra_simps)


lemma length_filter_concat:
  "length (filter Q (concat xss)) = sum_list (map (\<lambda>xs. length (filter Q xs)) xss)"
  by (induction xss) simp_all

lemma sum_list_indicator:
  "sum_list (map (\<lambda>c. if P c then 1 else 0) cs) = length (filter P cs)"
  by (induction cs) simp_all

lemma nacl_node_cases:
  assumes "n \<in> set (nodes nacl)"
  shows "atoms_in_node n = [AtomInNode ''Na'' (0, 0, 0), AtomInNode ''Cl'' (0.5, 0.5, 0.5)]"
    and "pos_in_cell n = (px, py, pz) \<Longrightarrow>
           (px = 0 \<or> px = 1/2) \<and> (py = 0 \<or> py = 1/2) \<and> (pz = 0 \<or> pz = 1/2)"
  using assms by (auto simp add: nacl_nodes fcc_nodes_def)

lemma nacl_home_only:
  assumes n: "n \<in> set (nodes nacl)" and d: "d = 0 \<or> d = 1/2"
    and ins: "inside (- 2.819, - 2.819, - 2.819) (2.821, 2.821, 2.821)
       (dot (vadd (replica n ijk) (d, d, d)) (M_1 (unit_cell nacl)))"
  shows "ijk = home_cell d n"
proof -
  obtain px py pz as where nn: "n = Node (px, py, pz) as"
    by (cases n, cases "pos_in_cell n") auto
  then have "pos_in_cell n = (px, py, pz)" by simp
  then have p: "px = 0 \<or> px = 1/2" "py = 0 \<or> py = 1/2" "pz = 0 \<or> pz = 1/2"
    using nacl_node_cases(2) [OF n] by blast+
  obtain i j k where ijk: "ijk = (i, j, k)" by (cases ijk)
  from ins have b:
    "- 2.819 < (px + d + of_int i) * 5.64" "(px + d + of_int i) * 5.64 \<le> 2.821"
    "- 2.819 < (py + d + of_int j) * 5.64" "(py + d + of_int j) * 5.64 \<le> 2.821"
    "- 2.819 < (pz + d + of_int k) * 5.64" "(pz + d + of_int k) * 5.64 \<le> 2.821"
    unfolding nn ijk nacl_xyz inside_def all_lt_def all_le_def by simp_all
  have cx: "px + d = 0 \<or> px + d = 1/2 \<or> px + d = 1" using p(1) d by auto
  have cy: "py + d = 0 \<or> py + d = 1/2 \<or> py + d = 1" using p(2) d by auto
  have cz: "pz + d = 0 \<or> pz + d = 1/2 \<or> pz + d = 1" using p(3) d by auto
  have "i = (if px + d = 1 then - 1 else 0)" by (rule coord_cell [OF b(1) b(2) cx])
  moreover have "j = (if py + d = 1 then - 1 else 0)" by (rule coord_cell [OF b(3) b(4) cy])
  moreover have "k = (if pz + d = 1 then - 1 else 0)" by (rule coord_cell [OF b(5) b(6) cz])
  ultimately show ?thesis unfolding ijk nn home_cell_def by simp
qed

lemma nacl_home_inside:
  assumes n: "n \<in> set (nodes nacl)" and d: "d = 0 \<or> d = 1/2"
  shows "inside (- 2.819, - 2.819, - 2.819) (2.821, 2.821, 2.821)
       (dot (vadd (replica n (home_cell d n)) (d, d, d)) (M_1 (unit_cell nacl)))"
proof -
  obtain px py pz as where nn: "n = Node (px, py, pz) as"
    by (cases n, cases "pos_in_cell n") auto
  then have "pos_in_cell n = (px, py, pz)" by simp
  then have p: "px = 0 \<or> px = 1/2" "py = 0 \<or> py = 1/2" "pz = 0 \<or> pz = 1/2"
    using nacl_node_cases(2) [OF n] by blast+
  have one: "\<And>c::real. c = 0 \<or> c = 1/2 \<Longrightarrow>
      - 2.819 < (c + d + of_int (if c + d = 1 then - 1 else 0)) * 5.64
      \<and> (c + d + of_int (if c + d = 1 then - 1 else 0)) * 5.64 \<le> 2.821"
    using d by auto
  show ?thesis
    using one [OF p(1)] one [OF p(2)] one [OF p(3)]
    unfolding nn home_cell_def node.sel prod.case nacl_xyz inside_def all_lt_def all_le_def
    by simp
qed

lemma nacl_species_count:
  assumes cov: "scope_covers E nacl (- 2.819, - 2.819, - 2.819) (2.821, 2.821, 2.821)"
    and nr: "scope_no_repeat E nacl (- 2.819, - 2.819, - 2.819) (2.821, 2.821, 2.821)"
    and d: "d = 0 \<or> d = 1/2"
    and a: "\<And>n. n \<in> set (nodes nacl) \<Longrightarrow> AtomInNode nm (d, d, d) \<in> set (atoms_in_node n)"
  shows "length (filter (\<lambda>c. inside (- 2.819, - 2.819, - 2.819) (2.821, 2.821, 2.821)
            (dot (vadd (snd c) (d, d, d)) (M_1 (unit_cell nacl))))
          (all_nodes E nacl (get_vertices (zip_bounds (- 2.819, - 2.819, - 2.819) (2.821, 2.821, 2.821))))) = 4"
proof -
  let ?vmin = "(- 2.819, - 2.819, - 2.819) :: vec" and ?vmax = "(2.821, 2.821, 2.821) :: vec"
  let ?cs = "all_nodes E nacl (get_vertices (zip_bounds ?vmin ?vmax))"
  let ?P = "\<lambda>c. inside ?vmin ?vmax (dot (vadd (snd c) (d, d, d)) (M_1 (unit_cell nacl)))"
  let ?h = "\<lambda>n. (n, replica n (home_cell d n))"
  have complete: "\<And>n ijk a. n \<in> set (nodes nacl) \<Longrightarrow> a \<in> set (atoms_in_node n) \<Longrightarrow>
      inside ?vmin ?vmax (dot (vadd (replica n ijk) (ain_pos a)) (M_1 (unit_cell nacl))) \<Longrightarrow>
      (n, replica n ijk) \<in> set ?cs"
    using cov unfolding scope_covers_def by blast
  have sound: "\<And>c. c \<in> set ?cs \<Longrightarrow> fst c \<in> set (nodes nacl) \<and> (\<exists>ijk. snd c = replica (fst c) ijk)"
    using cov unfolding scope_covers_def by blast
  have "set (filter ?P ?cs) = ?h ` set (nodes nacl)"
  proof (intro set_eqI iffI)
    fix c assume "c \<in> set (filter ?P ?cs)"
    then have c: "c \<in> set ?cs" and P: "?P c" by simp_all
    from sound [OF c] have n: "fst c \<in> set (nodes nacl)" and "\<exists>ijk. snd c = replica (fst c) ijk"
      by blast+
    then obtain ijk where r: "snd c = replica (fst c) ijk" by blast
    from P r have "ijk = home_cell d (fst c)"
      by (intro nacl_home_only [OF n d]) simp
    with r have "c = ?h (fst c)" by (simp add: prod_eq_iff)
    with n show "c \<in> ?h ` set (nodes nacl)" by blast
  next
    fix c assume "c \<in> ?h ` set (nodes nacl)"
    then obtain n where n: "n \<in> set (nodes nacl)" and c: "c = ?h n" by blast
    have ins: "?P c" unfolding c using nacl_home_inside [OF n d] by simp
    have "(n, replica n (home_cell d n)) \<in> set ?cs"
    proof (rule complete [OF n a [OF n]])
      show "inside ?vmin ?vmax (dot (vadd (replica n (home_cell d n)) (ain_pos (AtomInNode nm (d, d, d))))
         (M_1 (unit_cell nacl)))"
        using nacl_home_inside [OF n d] by simp
    qed
    with ins c show "c \<in> set (filter ?P ?cs)" by simp
  qed
  moreover have "distinct (filter ?P ?cs)"
    using nr unfolding scope_no_repeat_def by simp
  ultimately have "length (filter ?P ?cs) = card (?h ` set (nodes nacl))"
    using distinct_card [of "filter ?P ?cs"] by simp
  also have "\<dots> = card (set (nodes nacl))"
    by (intro card_image) (simp add: inj_on_def)
  also have "\<dots> = 4"
    by (simp add: nacl_nodes fcc_nodes_def)
  finally show ?thesis .
qed


lemma count_per_candidate:
  assumes "\<And>c. c \<in> set cs \<Longrightarrow> length (filter Q (f c)) = (if P c then 1 else 0)"
  shows "length (filter Q (concat (map f cs))) = length (filter P cs)"
proof -
  have "map (\<lambda>xs. length (filter Q xs)) (map f cs) = map (\<lambda>c. if P c then 1 else 0) cs"
    using assms by simp
  then show ?thesis
    by (simp only: length_filter_concat sum_list_indicator)
qed

lemma nacl_box:
  "get_box_to_fill (RotatedMonocrystal l (5.64, 5.64, 5.64) rm ttl) d PyNone 0 =
     Inr ((- 2.819, - 2.819, - 2.819), (2.821, 2.821, 2.821))"
  by (simp add: get_box_to_fill_def RotatedMonocrystal_def py_in_def py_is_def py_eq_def eps_def
      halve_def vneg_def vshift_def Let_def)

text \<open>
  The sample scope, the cells -1 and 0 on each axis, meets the contract for the
  rock-salt lattice on every box inside the box of one unit cell.
\<close>

lemma scope_nodes_sound:
  "c \<in> set (scope_nodes lo hi lat) \<Longrightarrow>
     fst c \<in> set (nodes lat) \<and> (\<exists>ijk. snd c = replica (fst c) ijk)"
  by (auto simp add: scope_nodes_def) blast

lemma scope_nodes_member:
  "n \<in> set (nodes lat) \<Longrightarrow> lo \<le> i \<Longrightarrow> i < hi \<Longrightarrow> lo \<le> j \<Longrightarrow> j < hi \<Longrightarrow> lo \<le> k \<Longrightarrow> k < hi \<Longrightarrow>
     (n, replica n (i, j, k)) \<in> set (scope_nodes lo hi lat)"
  by (force simp add: scope_nodes_def)

lemma inside_mono:
  "all_le lo vmin \<Longrightarrow> all_le vmax hi \<Longrightarrow> inside vmin vmax x \<Longrightarrow> inside lo hi x"
  by (auto simp add: inside_def all_le_def all_lt_def split: prod.splits)

lemma sample_scope_covers:
  assumes "all_le (- 2.819, - 2.819, - 2.819) vmin" and "all_le vmax (2.821, 2.821, 2.821)"
  shows "scope_covers sample_collab nacl vmin vmax"
proof -
  have an: "all_nodes sample_collab nacl (get_vertices (zip_bounds vmin vmax)) = scope_nodes (- 1) 1 nacl"
    by (simp add: sample_collab_def)
  have "(n, replica n ijk) \<in> set (scope_nodes (- 1) 1 nacl)"
    if n: "n \<in> set (nodes nacl)" and a: "a \<in> set (atoms_in_node n)"
      and ins: "inside vmin vmax (dot (vadd (replica n ijk) (ain_pos a)) (M_1 (unit_cell nacl)))"
    for n ijk a
  proof -
    from a nacl_node_cases(1) [OF n]
    have "ain_pos a = (0, 0, 0) \<or> ain_pos a = (1/2, 1/2, 1/2)"
      by auto
    then have "\<exists>d. (d = 0 \<or> d = 1/2) \<and> ain_pos a = (d, d, d)"
      by blast
    then obtain d :: real where d: "d = 0 \<or> d = 1/2" and pa: "ain_pos a = (d, d, d)"
      by blast
    have "inside (- 2.819, - 2.819, - 2.819) (2.821, 2.821, 2.821)
       (dot (vadd (replica n ijk) (d, d, d)) (M_1 (unit_cell nacl)))"
      using inside_mono [OF assms ins] pa by simp
    then have h: "ijk = home_cell d n" by (rule nacl_home_only [OF n d])
    obtain i j k where ijk: "home_cell d n = (i, j, k)" by (cases "home_cell d n")
    then have "- 1 \<le> i \<and> i < 1 \<and> - 1 \<le> j \<and> j < 1 \<and> - 1 \<le> k \<and> k < 1"
      by (auto simp add: home_cell_def split: prod.splits if_splits)
    then show ?thesis
      unfolding h ijk using scope_nodes_member [OF n] by blast
  qed
  then show ?thesis
    unfolding scope_covers_def an using scope_nodes_sound by blast
qed

lemma sample_scope_no_repeat: "scope_no_repeat sample_collab nacl vmin vmax"
  by (simp add: scope_no_repeat_def sample_collab_def scope_nodes_def nacl_nodes fcc_nodes_def
      replica_def vadd_def upto.simps)

text \<open>
  C5 for the rock-salt lattice in the box of one unit cell, with the sample scope.
\<close>

lemma box_upper:
  "get_box_to_fill (RotatedMonocrystal l (5.64, 5.64, 5.64) rm ttl) d (PyBool True) 0 =
     Inr ((- 2.819, - 2.819, 0.001), (2.821, 2.821, 2.821))"
  by (simp add: get_box_to_fill_def RotatedMonocrystal_def py_in_def py_is_def py_eq_def eps_def
      halve_def vneg_def vshift_def set2_def Let_def)

lemma box_lower:
  "get_box_to_fill (RotatedMonocrystal l (5.64, 5.64, 5.64) rm ttl) d (PyBool False) 0 =
     Inr ((- 2.819, - 2.819, - 2.819), (2.821, 2.821, 0.001))"
  by (simp add: get_box_to_fill_def RotatedMonocrystal_def py_in_def py_is_def py_eq_def eps_def
      halve_def vneg_def vshift_def set2_def Let_def)

theorem halves_make_full_box_witness:
  "\<exists>au al af.
      fst (generate_atoms sample_collab (PyBool True) 0
             (RotatedMonocrystal 0 (5.64, 5.64, 5.64) None None, [nacl])) = Inr au
    \<and> fst (generate_atoms sample_collab (PyBool False) 0
             (RotatedMonocrystal 0 (5.64, 5.64, 5.64) None None, [nacl])) = Inr al
    \<and> fst (generate_atoms sample_collab PyNone 0
             (RotatedMonocrystal 0 (5.64, 5.64, 5.64) None None, [nacl])) = Inr af
    \<and> set au \<union> set al = set af \<and> set au \<inter> set al = {}"
proof -
  let ?m = "RotatedMonocrystal 0 (5.64, 5.64, 5.64) None None"
  have d: "dim ?m = (5.64, 5.64, 5.64)" by (simp add: RotatedMonocrystal_def)
  have L: "filled_lattice sample_collab ?m [nacl] = nacl"
    by (simp add: filled_lattice_def RotatedMonocrystal_def)
  have u: "scope_covers sample_collab (filled_lattice sample_collab ?m [nacl])
             (- 2.819, - 2.819, 0.001) (2.821, 2.821, 2.821)"
    unfolding L by (rule sample_scope_covers) (simp_all add: all_le_def)
  have l: "scope_covers sample_collab (filled_lattice sample_collab ?m [nacl])
             (- 2.819, - 2.819, - 2.819) (2.821, 2.821, 0.001)"
    unfolding L by (rule sample_scope_covers) (simp_all add: all_le_def)
  have f: "scope_covers sample_collab (filled_lattice sample_collab ?m [nacl])
             (- 2.819, - 2.819, - 2.819) (2.821, 2.821, 2.821)"
    unfolding L by (rule sample_scope_covers) (simp_all add: all_le_def)
  show ?thesis
    by (rule halves_make_full_box [OF box_upper box_lower nacl_box u l f])
qed

text \<open>
  C4. The lattice of \<^verbatim>\<open>make_nacl_lattice(("Na", "Cl"), a=5.64)\<close>, filled by a run of
  \<^verbatim>\<open>generate_atoms()\<close> of a builder with the dimensions \<open>(5.64, 5.64, 5.64)\<close> and no
  rotation: when the scope enumeration meets its contract on the box and repeats no
  replica, the atom list holds exactly 4 atoms named \<^verbatim>\<open>Na\<close>, exactly 4 named \<^verbatim>\<open>Cl\<close>,
  and nothing else.
\<close>

theorem nacl_one_cell_counts:
  assumes "make_nacl_lattice [''Na'', ''Cl''] 5.64 = Inr L"
      and "l < length s" and "s ! l = L"
      and "get_box_to_fill (RotatedMonocrystal l (5.64, 5.64, 5.64) None ttl) (5.64, 5.64, 5.64) PyNone 0
             = Inr (vmin, vmax)"
      and "scope_covers E L vmin vmax" and "scope_no_repeat E L vmin vmax"
  shows "\<exists>as. fst (generate_atoms E PyNone 0 (RotatedMonocrystal l (5.64, 5.64, 5.64) None ttl, s)) = Inr as
     \<and> length (filter (\<lambda>a. atom_name a = ''Na'') as) = 4
     \<and> length (filter (\<lambda>a. atom_name a = ''Cl'') as) = 4
     \<and> length as = 8"
proof -
  let ?m = "RotatedMonocrystal l (5.64, 5.64, 5.64) None ttl"
  let ?vmin = "(- 2.819, - 2.819, - 2.819) :: vec" and ?vmax = "(2.821, 2.821, 2.821) :: vec"
  let ?I = "\<lambda>c :: string \<times> vec. inside ?vmin ?vmax (snd c)"
  let ?cs = "all_nodes E nacl (get_vertices (zip_bounds ?vmin ?vmax))"
  let ?f = "\<lambda>c. map (\<lambda>a. (ain_name a, dot (vadd (snd c) (ain_pos a)) (M_1 (unit_cell nacl))))
              (atoms_in_node (fst c))"
  let ?P = "\<lambda>d c. inside ?vmin ?vmax (dot (vadd (snd c) (d, d, d)) (M_1 (unit_cell nacl)))"
  have L: "L = nacl"
    using assms(1) by (simp add: make_nacl_lattice_def nacl_def)
  have box: "vmin = ?vmin" "vmax = ?vmax"
    using assms(4) unfolding nacl_box by simp_all
  have cov: "scope_covers E nacl ?vmin ?vmax" and nr: "scope_no_repeat E nacl ?vmin ?vmax"
    using assms(5,6) unfolding L box by simp_all
  have sl: "s ! lattice (?m\<lparr>atoms := []\<rparr>) = nacl"
    using assms(3) L by (simp add: RotatedMonocrystal_def)
  have cand: "candidates E s (?m\<lparr>atoms := []\<rparr>) ?vmin ?vmax = concat (map ?f ?cs)"
    unfolding candidates_def sl case_prod_unfold by (rule refl)
  define as where "as = map (\<lambda>c. Atom (fst c) (snd c)) (filter ?I (concat (map ?f ?cs)))"
  have res: "fst (generate_atoms E PyNone 0 (?m, s)) = Inr as"
  proof -
    have "get_box_to_fill (?m\<lparr>atoms := []\<rparr>) (dim (?m\<lparr>atoms := []\<rparr>)) PyNone 0 = Inr (?vmin, ?vmax)"
      using nacl_box [of l None ttl "(5.64, 5.64, 5.64)"]
      by (simp add: get_box_to_fill_def RotatedMonocrystal_def)
    moreover have "rot_mat (?m\<lparr>atoms := []\<rparr>) = None" "atoms (?m\<lparr>atoms := []\<rparr>) = []"
      by (simp_all add: RotatedMonocrystal_def)
    ultimately show ?thesis
      unfolding as_def cand [symmetric]
      by (simp add: generate_atoms_def Let_def do_gen_atoms_atoms)
  qed
  have sound: "\<And>c. c \<in> set ?cs \<Longrightarrow> fst c \<in> set (nodes nacl)"
    using cov unfolding scope_covers_def by blast
  have fc: "\<And>c. c \<in> set ?cs \<Longrightarrow>
      ?f c = [(''Na'', dot (vadd (snd c) (0, 0, 0)) (M_1 (unit_cell nacl))),
              (''Cl'', dot (vadd (snd c) (1/2, 1/2, 1/2)) (M_1 (unit_cell nacl)))]"
    using nacl_node_cases(1) [OF sound] by simp
  have na: "length (filter (\<lambda>c. ?I c \<and> fst c = ''Na'') (concat (map ?f ?cs))) = length (filter (?P 0) ?cs)"
    by (rule count_per_candidate) (simp add: fc)
  have cl: "length (filter (\<lambda>c. ?I c \<and> fst c = ''Cl'') (concat (map ?f ?cs))) = length (filter (?P (1/2)) ?cs)"
    by (rule count_per_candidate) (simp add: fc)
  have atomNa: "\<And>n. n \<in> set (nodes nacl) \<Longrightarrow> AtomInNode ''Na'' (0, 0, 0) \<in> set (atoms_in_node n)"
    using nacl_node_cases(1) by simp
  have atomCl: "\<And>n. n \<in> set (nodes nacl) \<Longrightarrow> AtomInNode ''Cl'' (1/2, 1/2, 1/2) \<in> set (atoms_in_node n)"
    using nacl_node_cases(1) by simp
  have n4: "length (filter (?P 0) ?cs) = 4"
    by (rule nacl_species_count [OF cov nr _ atomNa]) simp_all
  have c4: "length (filter (?P (1/2)) ?cs) = 4"
    by (rule nacl_species_count [OF cov nr _ atomCl]) simp_all
  have cntNa: "length (filter (\<lambda>a. atom_name a = ''Na'') as) = 4"
    unfolding as_def using na n4 by (simp add: filter_map o_def)
  have cntCl: "length (filter (\<lambda>a. atom_name a = ''Cl'') as) = 4"
    unfolding as_def using cl c4 by (simp add: filter_map o_def)
  have names: "\<And>a. a \<in> set as \<Longrightarrow> atom_name a = ''Na'' \<or> atom_name a = ''Cl''"
    unfolding as_def using fc by auto
  have "length as = length (filter (\<lambda>a. atom_name a = ''Na'') as)
      + length (filter (\<lambda>a. \<not> atom_name a = ''Na'') as)"
    by (simp only: sum_length_filter_compl)
  also have "filter (\<lambda>a. \<not> atom_name a = ''Na'') as = filter (\<lambda>a. atom_name a = ''Cl'') as"
    using names by (intro filter_cong) auto
  finally have "length as = 8" using cntNa cntCl by simp
  with res cntNa cntCl show ?thesis by blast
qed

text \<open>C4 with the sample scope.\<close>

theorem nacl_one_cell_counts_witness:
  "scope_covers sample_collab nacl (- 2.819, - 2.819, - 2.819) (2.821, 2.821, 2.821)
   \<and> scope_no_repeat sample_collab nacl (- 2.819, - 2.819, - 2.819) (2.821, 2.821, 2.821)
   \<and> (\<exists>as. fst (generate_atoms sample_collab PyNone 0
              (RotatedMonocrystal 0 (5.64, 5.64, 5.64) None None, [nacl])) = Inr as
        \<and> length (filter (\<lambda>a. atom_name a = ''Na'') as) = 4
        \<and> length (filter (\<lambda>a. atom_name a = ''Cl'') as) = 4
        \<and> length as = 8)"
proof -
  have c: "scope_covers sample_collab nacl (- 2.819, - 2.819, - 2.819) (2.821, 2.821, 2.821)"
    by (rule sample_scope_covers) (simp_all add: all_le_def)
  have r: "scope_no_repeat sample_collab nacl (- 2.819, - 2.819, - 2.819) (2.821, 2.821, 2.821)"
    by (rule sample_scope_no_repeat)
  have "0 < length [nacl]" and "[nacl] ! 0 = nacl" by simp_all
  from nacl_one_cell_counts [OF make_nacl this nacl_box c r] c r
  show ?thesis by blast
qed

end
